theory Spec2Isabelle
  imports Main "HOL-Library.AList"
begin

section \<open>Shared data model\<close>

text \<open>
  Errors are values.  The sentinel errors of \<open>pkg/errors\<close>, \<open>pkg/clients\<close> and
  \<open>internal/apiutil\<close> are constructors; \<open>errors.Wrap wrapper err\<close> is \<open>Wrap\<close>;
  \<open>fmt.Errorf\<close> with a plain message is \<open>Errorf\<close>, with a trailing \<open>%w\<close> verb it is
  \<open>ErrorfW\<close>; an error produced by a collaborator (policy engine, repository, cache,
  id provider, hasher) is \<open>Upstream\<close>.
\<close>

datatype error =
    ErrAuthorization
  | ErrAuthentication
  | ErrNotFound
  | ErrMalformedEntity
  | ErrLogin
  | ErrInvalidStatus
  | ErrInvalidRole
  | ErrMissingSecret
  | ErrStatusAlreadyAssigned
  | ErrEnableClient
  | ErrDisableClient
  | ErrPasswordFormat
  | errParentUnAuthz
  | ErrorsNew string
  | Errorf string
  | ErrorfW string error
  | Wrap error error
  | Upstream string

text \<open>\<open>clients.Status\<close> and \<open>clients.Role\<close> are small integer enumerations; a value
  that is none of the named constants is kept with its number.\<close>

datatype Status = EnabledStatus | DisabledStatus | UnknownStatus nat

datatype Role = UserRole | AdminRole | UnknownRole nat

type_synonym time = nat

type_synonym Metadata = "(string \<times> string) list"

text \<open>A \<open>*Group\<close> into the backing array of \<open>page.Groups\<close> is the index of the element.\<close>

type_synonym ptr = nat

record Group =
  g_ID :: string
  g_Owner :: string
  g_Parent :: string
  g_Name :: string
  g_Description :: string
  g_Metadata :: Metadata
  g_Level :: int
  g_Path :: string
  g_Children :: "ptr list"
  g_CreatedAt :: time
  g_UpdatedAt :: time
  g_UpdatedBy :: string
  g_Status :: Status

definition Group_zero :: Group where
  "Group_zero = \<lparr>g_ID = [], g_Owner = [], g_Parent = [], g_Name = [], g_Description = [],
     g_Metadata = [], g_Level = 0, g_Path = [], g_Children = [], g_CreatedAt = 0,
     g_UpdatedAt = 0, g_UpdatedBy = [], g_Status = EnabledStatus\<rparr>"

record Page =
  p_Total :: nat
  p_Offset :: nat
  p_Limit :: nat
  p_Path :: string
  p_Level :: nat
  p_ID :: string
  p_Direction :: int
  p_Groups :: "Group list"

record Member =
  m_ID :: string
  m_Type :: string

record MembersPage =
  mp_Total :: nat
  mp_Offset :: nat
  mp_Limit :: nat
  mp_Members :: "Member list"

text \<open>
  The request messages of the policy engine (\<open>AuthorizeReq\<close>, \<open>AddPolicyReq\<close>,
  \<open>DeletePolicyReq\<close>, \<open>ListObjectsReq\<close>, \<open>ListSubjectsReq\<close>) carry the same string
  fields; a field the source leaves out of a struct literal is the empty string.
\<close>

record Req =
  SubjectType :: string
  SubjectKind :: string
  Subject :: string
  Relation :: string
  Permission :: string
  ObjectType :: string
  Object :: string

record Credentials =
  Identity :: string
  Secret :: string

record Client =
  c_ID :: string
  c_Name :: string
  c_Tags :: "string list"
  c_Owner :: string
  c_Credentials :: Credentials
  c_Metadata :: Metadata
  c_CreatedAt :: time
  c_UpdatedAt :: time
  c_UpdatedBy :: string
  c_Status :: Status
  c_Role :: Role

definition Client_zero :: Client where
  "Client_zero = \<lparr>c_ID = [], c_Name = [], c_Tags = [], c_Owner = [],
     c_Credentials = \<lparr>Identity = [], Secret = []\<rparr>, c_Metadata = [], c_CreatedAt = 0,
     c_UpdatedAt = 0, c_UpdatedBy = [], c_Status = EnabledStatus, c_Role = UserRole\<rparr>"


section \<open>Collaborators and the call trace\<close>

text \<open>
  Every call that leaves the process (policy engine, repository, cache) and every call to
  the id provider and the hasher is appended to a trace, so that the number and the order
  of calls can be stated.  A collaborator answers a request by a function of the request;
  the id provider is a sequence, read at the number of ids issued so far; the clock is
  read at the length of the trace.
\<close>

record IssueReq =
  ir_Id :: string
  ir_Email :: string
  ir_Type :: nat

text \<open>\<open>mainflux.Token\<close>: of the \<open>Extra\<close> struct only the \<open>refresh_token\<close> entry is
  read, and only when it is a string.\<close>

record Token =
  t_Value :: string
  t_ExtraRefreshToken :: "string option"

record jwt_Token =
  AccessToken :: string
  RefreshToken :: string
  AccessType :: string

datatype call =
    AuthIdentify string
  | AuthAuthorize Req
  | AuthAddPolicy Req
  | AuthDeletePolicy Req
  | AuthListAllObjects Req
  | AuthListAllSubjects Req
  | AuthIssue IssueReq
  | IDProviderID
  | HasherHash string
  | HasherCompare string string
  | GroupsSave Group
  | GroupsRetrieveByID string
  | GroupsRetrieveByIDs Page "string list"
  | GroupsChangeStatus Group
  | ThingsSave "Client list"
  | UsersSave Client
  | ClientsRetrieveByID string
  | ClientsRetrieveByIdentity string
  | ClientsRetrieveBySecret string
  | ClientsUpdateSecret Client
  | ClientsChangeStatus Client
  | ClientsIsOwner string string
  | CacheID string
  | CacheSave string string
  | CacheRemove string

record state =
  trace :: "call list"
  issued :: nat
  cache :: "string \<rightharpoonup> string"

definition log :: "call \<Rightarrow> state \<Rightarrow> state" where
  "log c s = s\<lparr>trace := trace s @ [c]\<rparr>"

text \<open>The calls made between two states of one run.\<close>

definition calls :: "state \<Rightarrow> state \<Rightarrow> call list" where
  "calls s s' = drop (length (trace s)) (trace s')"

record AuthServiceClient =
  a_Identify :: "string \<Rightarrow> error + string"
  a_Authorize :: "Req \<Rightarrow> error + (bool \<times> string)"
  a_AddPolicy :: "Req \<Rightarrow> error + bool"
  a_DeletePolicy :: "Req \<Rightarrow> error + bool"
  a_ListAllObjects :: "Req \<Rightarrow> error + string list"
  a_ListAllSubjects :: "Req \<Rightarrow> error + string list"
  a_Issue :: "IssueReq \<Rightarrow> error + Token option"

record GroupsRepository =
  gr_Save :: "Group \<Rightarrow> error + Group"
  gr_RetrieveByID :: "string \<Rightarrow> error + Group"
  gr_RetrieveByIDs :: "Page \<Rightarrow> string list \<Rightarrow> error + Page"
  gr_ChangeStatus :: "Group \<Rightarrow> error + Group"

type_synonym IDProvider = "nat \<Rightarrow> error + string"

type_synonym Clock = "nat \<Rightarrow> time"

definition idProvider_ID :: "IDProvider \<Rightarrow> state \<Rightarrow> (error + string) \<times> state" where
  "idProvider_ID idp s = (idp (issued s), log IDProviderID (s\<lparr>issued := Suc (issued s)\<rparr>))"

definition time_Now :: "Clock \<Rightarrow> state \<Rightarrow> time" where
  "time_Now clk s = clk (length (trace s))"

section \<open>The groups service (internal/groups/service.go)\<close>

definition ownerRelation :: string where "ownerRelation = ''owner''"
definition groupRelation :: string where "groupRelation = ''group''"
definition parentGroupRelation :: string where "parentGroupRelation = ''parent_group''"
definition usersKind :: string where "usersKind = ''users''"
definition groupsKind :: string where "groupsKind = ''groups''"
definition thingsKind :: string where "thingsKind = ''things''"
definition userType :: string where "userType = ''user''"
definition groupType :: string where "groupType = ''group''"
definition thingType :: string where "thingType = ''thing''"
definition deletePermission :: string where "deletePermission = ''delete''"
definition editPermission :: string where "editPermission = ''edit''"
definition viewPermission :: string where "viewPermission = ''view''"
definition tokenKind :: string where "tokenKind = ''token''"

record groups_service =
  gs_groups :: GroupsRepository
  gs_auth :: AuthServiceClient
  gs_idProvider :: IDProvider
  gs_clock :: Clock

definition gs_identify :: "groups_service \<Rightarrow> string \<Rightarrow> state \<Rightarrow> (error + string) \<times> state" where
  "gs_identify svc token s =
     (case a_Identify (gs_auth svc) token of
        Inl err \<Rightarrow> (Inl err, log (AuthIdentify token) s)
      | Inr user \<Rightarrow> (Inr user, log (AuthIdentify token) s))"

definition gs_authorize ::
  "groups_service \<Rightarrow> string \<Rightarrow> string \<Rightarrow> string \<Rightarrow> string \<Rightarrow> string \<Rightarrow> state
     \<Rightarrow> (error + string) \<times> state" where
  "gs_authorize svc subjectType subject permission objectType object s =
     (let req = \<lparr>SubjectType = subjectType, SubjectKind = tokenKind, Subject = subject,
                  Relation = [], Permission = permission, ObjectType = objectType,
                  Object = object\<rparr>;
          s' = log (AuthAuthorize req) s
      in case a_Authorize (gs_auth svc) req of
           Inl err \<Rightarrow> (Inl (Wrap ErrAuthorization err), s')
         | Inr (authorized, resID) \<Rightarrow>
             if \<not> authorized then (Inl ErrAuthorization, s') else (Inr resID, s'))"

definition gs_AddPolicy :: "groups_service \<Rightarrow> Req \<Rightarrow> state \<Rightarrow> (error + bool) \<times> state" where
  "gs_AddPolicy svc pr s = (a_AddPolicy (gs_auth svc) pr, log (AuthAddPolicy pr) s)"

definition gs_DeletePolicy :: "groups_service \<Rightarrow> Req \<Rightarrow> state \<Rightarrow> (error + bool) \<times> state" where
  "gs_DeletePolicy svc pr s = (a_DeletePolicy (gs_auth svc) pr, log (AuthDeletePolicy pr) s)"

definition CreateGroup ::
  "groups_service \<Rightarrow> string \<Rightarrow> Group \<Rightarrow> state \<Rightarrow> (error + Group) \<times> state" where
  "CreateGroup svc token g s =
     (case gs_identify svc token s of
        (Inl err, s1) \<Rightarrow> (Inl err, s1)
      | (Inr ownerID, s1) \<Rightarrow>
     (case idProvider_ID (gs_idProvider svc) s1 of
        (Inl err, s2) \<Rightarrow> (Inl err, s2)
      | (Inr groupID, s2) \<Rightarrow>
     if g_Status g \<noteq> EnabledStatus \<and> g_Status g \<noteq> DisabledStatus
     then (Inl ErrInvalidStatus, s2)
     else
       let g1 = (if g_Owner g = [] then g\<lparr>g_Owner := ownerID\<rparr> else g);
           g2 = g1\<lparr>g_ID := groupID, g_CreatedAt := time_Now (gs_clock svc) s2\<rparr>
       in
     (case (if g_Parent g2 \<noteq> []
            then (case gs_authorize svc userType token editPermission groupType (g_Parent g2) s2 of
                    (Inl err, s3) \<Rightarrow> (Some (Wrap errParentUnAuthz err), s3)
                  | (Inr _, s3) \<Rightarrow> (None, s3))
            else (None, s2)) of
        (Some err, s3) \<Rightarrow> (Inl err, s3)
      | (None, s3) \<Rightarrow>
     (case gr_Save (gs_groups svc) g2 of
        Inl err \<Rightarrow> (Inl err, log (GroupsSave g2) s3)
      | Inr g3 \<Rightarrow>
     (case gs_AddPolicy svc
             \<lparr>SubjectType = userType, SubjectKind = [], Subject = ownerID,
              Relation = ownerRelation, Permission = [], ObjectType = groupType,
              Object = g_ID g3\<rparr> (log (GroupsSave g2) s3) of
        (Inl err, s5) \<Rightarrow> (Inl err, s5)
      | (Inr _, s5) \<Rightarrow>
     if g_Parent g3 \<noteq> []
     then (case gs_AddPolicy svc
                  \<lparr>SubjectType = groupType, SubjectKind = [], Subject = g_Parent g3,
                   Relation = parentGroupRelation, Permission = [], ObjectType = groupType,
                   Object = g_ID g3\<rparr> s5 of
             (Inl err, s6) \<Rightarrow> (Inl err, s6)
           | (Inr _, s6) \<Rightarrow> (Inr g3, s6))
     else (Inr g3, s5))))))"



definition members_of :: "string \<Rightarrow> string list \<Rightarrow> MembersPage" where
  "members_of ty ids =
     (let members = map (\<lambda>mid. \<lparr>m_ID = mid, m_Type = ty\<rparr>) ids
      in \<lparr>mp_Total = length members, mp_Offset = 0, mp_Limit = length members,
          mp_Members = members\<rparr>)"

definition ListMembers ::
  "groups_service \<Rightarrow> string \<Rightarrow> string \<Rightarrow> string \<Rightarrow> string \<Rightarrow> state
     \<Rightarrow> (error + MembersPage) \<times> state" where
  "ListMembers svc token groupID permission memberKind s =
     (case gs_authorize svc userType token viewPermission groupType groupID s of
        (Inl err, s1) \<Rightarrow> (Inl err, s1)
      | (Inr _, s1) \<Rightarrow>
     if memberKind = thingsKind then
       (let req = \<lparr>SubjectType = groupType, SubjectKind = [], Subject = groupID,
                    Relation = groupRelation, Permission = [], ObjectType = thingType,
                    Object = []\<rparr>;
            s2 = log (AuthListAllObjects req) s1
        in case a_ListAllObjects (gs_auth svc) req of
             Inl err \<Rightarrow> (Inl err, s2)
           | Inr tids \<Rightarrow> (Inr (members_of thingType tids), s2))
     else if memberKind = usersKind then
       (let req = \<lparr>SubjectType = userType, SubjectKind = [], Subject = [], Relation = [],
                    Permission = permission, ObjectType = groupType, Object = groupID\<rparr>;
            s2 = log (AuthListAllSubjects req) s1
        in case a_ListAllSubjects (gs_auth svc) req of
             Inl err \<Rightarrow> (Inl err, s2)
           | Inr uids \<Rightarrow> (Inr (members_of userType uids), s2))
     else (Inl (Errorf ''invalid member_kind''), s1))"

text \<open>The policy requests that \<open>Assign\<close> and \<open>Unassign\<close> build from the member ids;
  \<open>None\<close> is the \<open>default\<close> branch of the switch.\<close>

definition member_policies ::
  "string \<Rightarrow> string \<Rightarrow> string \<Rightarrow> string list \<Rightarrow> Req list option" where
  "member_policies groupID relation memberKind memberIDs =
     (if memberKind = thingsKind then
        Some (map (\<lambda>memberID. \<lparr>SubjectType = groupType, SubjectKind = [], Subject = groupID,
                     Relation = relation, Permission = [], ObjectType = thingType,
                     Object = memberID\<rparr>) memberIDs)
      else if memberKind = groupsKind then
        Some (map (\<lambda>memberID. \<lparr>SubjectType = groupType, SubjectKind = [], Subject = memberID,
                     Relation = relation, Permission = [], ObjectType = groupType,
                     Object = groupID\<rparr>) memberIDs)
      else if memberKind = usersKind then
        Some (map (\<lambda>memberID. \<lparr>SubjectType = userType, SubjectKind = [], Subject = memberID,
                     Relation = relation, Permission = [], ObjectType = groupType,
                     Object = groupID\<rparr>) memberIDs)
      else None)"

fun add_policies :: "groups_service \<Rightarrow> Req list \<Rightarrow> state \<Rightarrow> error option \<times> state" where
  "add_policies svc [] s = (None, s)"
| "add_policies svc (pr # prs) s =
     (case gs_AddPolicy svc pr s of
        (Inl err, s') \<Rightarrow> (Some (ErrorfW ''failed to add policies : '' err), s')
      | (Inr _, s') \<Rightarrow> add_policies svc prs s')"

fun delete_policies :: "groups_service \<Rightarrow> Req list \<Rightarrow> state \<Rightarrow> error option \<times> state" where
  "delete_policies svc [] s = (None, s)"
| "delete_policies svc (pr # prs) s =
     (case gs_DeletePolicy svc pr s of
        (Inl err, s') \<Rightarrow> (Some (ErrorfW ''failed to delete policies : '' err), s')
      | (Inr _, s') \<Rightarrow> delete_policies svc prs s')"

definition Assign ::
  "groups_service \<Rightarrow> string \<Rightarrow> string \<Rightarrow> string \<Rightarrow> string \<Rightarrow> string list \<Rightarrow> state
     \<Rightarrow> error option \<times> state" where
  "Assign svc token groupID relation memberKind memberIDs s =
     (case gs_authorize svc userType token editPermission groupType groupID s of
        (Inl err, s1) \<Rightarrow> (Some err, s1)
      | (Inr _, s1) \<Rightarrow>
     (case member_policies groupID relation memberKind memberIDs of
        None \<Rightarrow> (Some (Errorf ''invalid member kind''), s1)
      | Some prs \<Rightarrow> add_policies svc prs s1))"

definition Unassign ::
  "groups_service \<Rightarrow> string \<Rightarrow> string \<Rightarrow> string \<Rightarrow> string \<Rightarrow> string list \<Rightarrow> state
     \<Rightarrow> error option \<times> state" where
  "Unassign svc token groupID relation memberKind memberIDs s =
     (case gs_authorize svc userType token editPermission groupType groupID s of
        (Inl err, s1) \<Rightarrow> (Some err, s1)
      | (Inr _, s1) \<Rightarrow>
     (case member_policies groupID relation memberKind memberIDs of
        None \<Rightarrow> (Some (Errorf ''invalid member kind''), s1)
      | Some prs \<Rightarrow> delete_policies svc prs s1))"

definition changeGroupStatus ::
  "groups_service \<Rightarrow> string \<Rightarrow> Group \<Rightarrow> state \<Rightarrow> (error + Group) \<times> state" where
  "changeGroupStatus svc token grp s =
     (case gs_authorize svc userType token editPermission groupType (g_ID grp) s of
        (Inl err, s1) \<Rightarrow> (Inl err, s1)
      | (Inr userID, s1) \<Rightarrow>
     (case gr_RetrieveByID (gs_groups svc) (g_ID grp) of
        Inl err \<Rightarrow> (Inl err, log (GroupsRetrieveByID (g_ID grp)) s1)
      | Inr dbGroup \<Rightarrow>
     if g_Status dbGroup = g_Status grp
     then (Inl ErrStatusAlreadyAssigned, log (GroupsRetrieveByID (g_ID grp)) s1)
     else
       (let grp' = grp\<lparr>g_UpdatedBy := userID\<rparr>
        in (gr_ChangeStatus (gs_groups svc) grp',
            log (GroupsChangeStatus grp') (log (GroupsRetrieveByID (g_ID grp)) s1)))))"

definition EnableGroup ::
  "groups_service \<Rightarrow> string \<Rightarrow> string \<Rightarrow> state \<Rightarrow> (error + Group) \<times> state" where
  "EnableGroup svc token gid s =
     (let grp = Group_zero\<lparr>g_ID := gid, g_Status := EnabledStatus,
                    g_UpdatedAt := time_Now (gs_clock svc) s\<rparr>
      in case changeGroupStatus svc token grp s of
           (Inl err, s') \<Rightarrow> (Inl err, s')
         | (Inr grp', s') \<Rightarrow> (Inr grp', s'))"

definition DisableGroup ::
  "groups_service \<Rightarrow> string \<Rightarrow> string \<Rightarrow> state \<Rightarrow> (error + Group) \<times> state" where
  "DisableGroup svc token gid s =
     (let grp = Group_zero\<lparr>g_ID := gid, g_Status := DisabledStatus,
                    g_UpdatedAt := time_Now (gs_clock svc) s\<rparr>
      in case changeGroupStatus svc token grp s of
           (Inl err, s') \<Rightarrow> (Inl err, s')
         | (Inr grp', s') \<Rightarrow> (Inr grp', s'))"


section \<open>The things service (things/service.go)\<close>

text \<open>The things repository: \<open>Save\<close> is variadic and stores all clients at once.\<close>

record ThingsRepository =
  tr_Save :: "Client list \<Rightarrow> error + Client list"
  tr_RetrieveByID :: "string \<Rightarrow> error + Client"
  tr_RetrieveBySecret :: "string \<Rightarrow> error + Client"
  tr_UpdateSecret :: "Client \<Rightarrow> error + Client"
  tr_ChangeStatus :: "Client \<Rightarrow> error + Client"

record things_service =
  ts_auth :: AuthServiceClient
  ts_clients :: ThingsRepository
  ts_clientCache :: "call \<Rightarrow> error option"
  ts_idProvider :: IDProvider
  ts_clock :: Clock

text \<open>
  Modelled from the spec: the \<open>things.Cache\<close> interface and its implementation are not
  among the sources.  The spec gives it as \<open>save(key, id); id(key) -> id or miss;
  remove(id)\<close>, a "cache mapping a secret credential to a resolved client id": the
  entries are the map \<open>cache\<close> of the state.  The source handles an error of each of the
  three calls, so a call may also fail in transport: \<open>ts_clientCache\<close> gives that failure,
  if any, and a failed call leaves the entries as they were.
\<close>

definition clientCache_ID :: "things_service \<Rightarrow> string \<Rightarrow> state \<Rightarrow> (error + string) \<times> state" where
  "clientCache_ID svc key s =
     (case ts_clientCache svc (CacheID key) of
        Some err \<Rightarrow> (Inl err, log (CacheID key) s)
      | None \<Rightarrow>
          (case cache s key of
             None \<Rightarrow> (Inl ErrNotFound, log (CacheID key) s)
           | Some thingID \<Rightarrow> (Inr thingID, log (CacheID key) s)))"

definition clientCache_Save :: "things_service \<Rightarrow> string \<Rightarrow> string \<Rightarrow> state \<Rightarrow> error option \<times> state" where
  "clientCache_Save svc key thingID s =
     (case ts_clientCache svc (CacheSave key thingID) of
        Some err \<Rightarrow> (Some err, log (CacheSave key thingID) s)
      | None \<Rightarrow> (None, log (CacheSave key thingID) (s\<lparr>cache := (cache s)(key \<mapsto> thingID)\<rparr>)))"

definition clientCache_Remove :: "things_service \<Rightarrow> string \<Rightarrow> state \<Rightarrow> error option \<times> state" where
  "clientCache_Remove svc thingID s =
     (case ts_clientCache svc (CacheRemove thingID) of
        Some err \<Rightarrow> (Some err, log (CacheRemove thingID) s)
      | None \<Rightarrow>
          (None, log (CacheRemove thingID)
                   (s\<lparr>cache := (\<lambda>key. if cache s key = Some thingID then None else cache s key)\<rparr>)))"

definition ts_identify :: "things_service \<Rightarrow> string \<Rightarrow> state \<Rightarrow> (error + string) \<times> state" where
  "ts_identify svc token s =
     (case a_Identify (ts_auth svc) token of
        Inl err \<Rightarrow> (Inl err, log (AuthIdentify token) s)
      | Inr user \<Rightarrow> (Inr user, log (AuthIdentify token) s))"

definition ts_authorize ::
  "things_service \<Rightarrow> string \<Rightarrow> string \<Rightarrow> string \<Rightarrow> string \<Rightarrow> string \<Rightarrow> state
     \<Rightarrow> error option \<times> state" where
  "ts_authorize svc subjectType subject permission objectType object s =
     (let req = \<lparr>SubjectType = subjectType, SubjectKind = [], Subject = subject,
                  Relation = [], Permission = permission, ObjectType = objectType,
                  Object = object\<rparr>;
          s' = log (AuthAuthorize req) s
      in case a_Authorize (ts_auth svc) req of
           Inl err \<Rightarrow> (Some (Wrap ErrAuthorization err), s')
         | Inr (authorized, _) \<Rightarrow>
             if \<not> authorized then (Some ErrAuthorization, s') else (None, s'))"

text \<open>The loop of \<open>CreateThings\<close> over \<open>clis\<close>; \<open>clients\<close> is the slice built so far.\<close>

fun CreateThings_loop ::
  "things_service \<Rightarrow> string \<Rightarrow> Client list \<Rightarrow> Client list \<Rightarrow> state
     \<Rightarrow> (error + Client list) \<times> state" where
  "CreateThings_loop svc userID [] clients s = (Inr clients, s)"
| "CreateThings_loop svc userID (cli # clis) clients s =
     (case (if c_ID cli = []
            then (case idProvider_ID (ts_idProvider svc) s of
                    (Inl err, s1) \<Rightarrow> (Inl err, s1)
                  | (Inr clientID, s1) \<Rightarrow> (Inr (cli\<lparr>c_ID := clientID\<rparr>), s1))
            else (Inr cli, s)) of
        (Inl err, s1) \<Rightarrow> (Inl err, s1)
      | (Inr cli1, s1) \<Rightarrow>
     (case (if Secret (c_Credentials cli1) = []
            then (case idProvider_ID (ts_idProvider svc) s1 of
                    (Inl err, s2) \<Rightarrow> (Inl err, s2)
                  | (Inr key, s2) \<Rightarrow>
                      (Inr (cli1\<lparr>c_Credentials := (c_Credentials cli1)\<lparr>Secret := key\<rparr>\<rparr>), s2))
            else (Inr cli1, s1)) of
        (Inl err, s2) \<Rightarrow> (Inl err, s2)
      | (Inr cli2, s2) \<Rightarrow>
     (let cli3 = (if c_Owner cli2 = [] then cli2\<lparr>c_Owner := userID\<rparr> else cli2)
      in if c_Status cli3 \<noteq> DisabledStatus \<and> c_Status cli3 \<noteq> EnabledStatus
         then (Inl ErrInvalidStatus, s2)
         else CreateThings_loop svc userID clis
                (clients @ [cli3\<lparr>c_CreatedAt := time_Now (ts_clock svc) s2\<rparr>]) s2)))"

definition CreateThings ::
  "things_service \<Rightarrow> string \<Rightarrow> Client list \<Rightarrow> state \<Rightarrow> (error + Client list) \<times> state" where
  "CreateThings svc token clis s =
     (case a_Identify (ts_auth svc) token of
        Inl err \<Rightarrow> (Inl err, log (AuthIdentify token) s)
      | Inr userID \<Rightarrow>
     (case CreateThings_loop svc userID clis [] (log (AuthIdentify token) s) of
        (Inl err, s1) \<Rightarrow> (Inl err, s1)
      | (Inr clients, s1) \<Rightarrow> (tr_Save (ts_clients svc) clients, log (ThingsSave clients) s1)))"

definition things_UpdateClientSecret ::
  "things_service \<Rightarrow> string \<Rightarrow> string \<Rightarrow> string \<Rightarrow> state \<Rightarrow> (error + Client) \<times> state" where
  "things_UpdateClientSecret svc token thingID key s =
     (case ts_identify svc token s of
        (Inl err, s1) \<Rightarrow> (Inl err, s1)
      | (Inr userID, s1) \<Rightarrow>
     (case ts_authorize svc userType userID editPermission thingType userID s1 of
        (Some err, s2) \<Rightarrow> (Inl err, s2)
      | (None, s2) \<Rightarrow>
     (let client = Client_zero\<lparr>c_ID := thingID,
                     c_Credentials := \<lparr>Identity = [], Secret = key\<rparr>,
                     c_UpdatedAt := time_Now (ts_clock svc) s2,
                     c_UpdatedBy := userID,
                     c_Status := EnabledStatus\<rparr>
      in (tr_UpdateSecret (ts_clients svc) client, log (ClientsUpdateSecret client) s2))))"

definition things_changeClientStatus ::
  "things_service \<Rightarrow> string \<Rightarrow> Client \<Rightarrow> state \<Rightarrow> (error + Client) \<times> state" where
  "things_changeClientStatus svc token client s =
     (case ts_identify svc token s of
        (Inl err, s1) \<Rightarrow> (Inl err, s1)
      | (Inr userID, s1) \<Rightarrow>
     (case ts_authorize svc userType userID deletePermission thingType (c_ID client) s1 of
        (Some err, s2) \<Rightarrow> (Inl err, s2)
      | (None, s2) \<Rightarrow>
     (case tr_RetrieveByID (ts_clients svc) (c_ID client) of
        Inl err \<Rightarrow> (Inl err, log (ClientsRetrieveByID (c_ID client)) s2)
      | Inr dbClient \<Rightarrow>
     if c_Status dbClient = c_Status client
     then (Inl ErrStatusAlreadyAssigned, log (ClientsRetrieveByID (c_ID client)) s2)
     else
       (let client' = client\<lparr>c_UpdatedBy := userID\<rparr>
        in (tr_ChangeStatus (ts_clients svc) client',
            log (ClientsChangeStatus client') (log (ClientsRetrieveByID (c_ID client)) s2))))))"

definition things_EnableClient ::
  "things_service \<Rightarrow> string \<Rightarrow> string \<Rightarrow> state \<Rightarrow> (error + Client) \<times> state" where
  "things_EnableClient svc token thingID s =
     (let client = Client_zero\<lparr>c_ID := thingID, c_Status := EnabledStatus,
                     c_UpdatedAt := time_Now (ts_clock svc) s\<rparr>
      in case things_changeClientStatus svc token client s of
           (Inl err, s') \<Rightarrow> (Inl (Wrap ErrEnableClient err), s')
         | (Inr client', s') \<Rightarrow> (Inr client', s'))"

text \<open>When the cache removal fails, \<open>DisableClient\<close> returns the client together with
  the error; the result type keeps the error only.\<close>

definition things_DisableClient ::
  "things_service \<Rightarrow> string \<Rightarrow> string \<Rightarrow> state \<Rightarrow> (error + Client) \<times> state" where
  "things_DisableClient svc token thingID s =
     (let client = Client_zero\<lparr>c_ID := thingID, c_Status := DisabledStatus,
                     c_UpdatedAt := time_Now (ts_clock svc) s\<rparr>
      in case things_changeClientStatus svc token client s of
           (Inl err, s') \<Rightarrow> (Inl (Wrap ErrDisableClient err), s')
         | (Inr client', s') \<Rightarrow>
             (case clientCache_Remove svc (c_ID client') s' of
                (Some err, s'') \<Rightarrow> (Inl err, s'')
              | (None, s'') \<Rightarrow> (Inr client', s'')))"

definition things_Identify :: "things_service \<Rightarrow> string \<Rightarrow> state \<Rightarrow> (error + string) \<times> state" where
  "things_Identify svc key s =
     (case clientCache_ID svc key s of
        (Inr thingID, s1) \<Rightarrow> (Inr thingID, s1)
      | (Inl _, s1) \<Rightarrow>
     (case tr_RetrieveBySecret (ts_clients svc) key of
        Inl err \<Rightarrow> (Inl err, log (ClientsRetrieveBySecret key) s1)
      | Inr client \<Rightarrow>
     (case clientCache_Save svc key (c_ID client) (log (ClientsRetrieveBySecret key) s1) of
        (Some err, s3) \<Rightarrow> (Inl err, s3)
      | (None, s3) \<Rightarrow> (Inr (c_ID client), s3))))"


section \<open>The users service (users/clients/service.go)\<close>

record UsersRepository =
  ur_Save :: "Client \<Rightarrow> error + Client"
  ur_RetrieveByID :: "string \<Rightarrow> error + Client"
  ur_RetrieveByIdentity :: "string \<Rightarrow> error + Client"
  ur_UpdateSecret :: "Client \<Rightarrow> error + Client"
  ur_ChangeStatus :: "Client \<Rightarrow> error + Client"
  ur_IsOwner :: "string \<Rightarrow> string \<Rightarrow> error option"

record Hasher =
  h_Hash :: "string \<Rightarrow> error + string"
  h_Compare :: "string \<Rightarrow> string \<Rightarrow> error option"

record users_service =
  us_clients :: UsersRepository
  us_idProvider :: IDProvider
  us_auth :: AuthServiceClient
  us_hasher :: Hasher
  us_passRegex :: "string \<Rightarrow> bool"
  us_clock :: Clock

definition users_Identify :: "users_service \<Rightarrow> string \<Rightarrow> state \<Rightarrow> (error + string) \<times> state" where
  "users_Identify svc token s =
     (case a_Identify (us_auth svc) token of
        Inl err \<Rightarrow> (Inl err, log (AuthIdentify token) s)
      | Inr user \<Rightarrow> (Inr user, log (AuthIdentify token) s))"

definition isOwner :: "users_service \<Rightarrow> string \<Rightarrow> string \<Rightarrow> state \<Rightarrow> error option \<times> state" where
  "isOwner svc clientID ownerID s =
     (ur_IsOwner (us_clients svc) clientID ownerID, log (ClientsIsOwner clientID ownerID) s)"

definition hasher_Hash :: "users_service \<Rightarrow> string \<Rightarrow> state \<Rightarrow> (error + string) \<times> state" where
  "hasher_Hash svc secret s = (h_Hash (us_hasher svc) secret, log (HasherHash secret) s)"

definition RegisterClient ::
  "users_service \<Rightarrow> string \<Rightarrow> Client \<Rightarrow> state \<Rightarrow> (error + Client) \<times> state" where
  "RegisterClient svc token cli s =
     (case users_Identify svc token s of (res, s1) \<Rightarrow>
     (let ownerID = (case res of Inl _ \<Rightarrow> [] | Inr uid \<Rightarrow> uid)
      in case idProvider_ID (us_idProvider svc) s1 of
        (Inl err, s2) \<Rightarrow> (Inl err, s2)
      | (Inr clientID, s2) \<Rightarrow>
     (let cli1 = (if c_Owner cli = [] \<and> ownerID \<noteq> [] then cli\<lparr>c_Owner := ownerID\<rparr> else cli)
      in if Secret (c_Credentials cli1) = [] then (Inl ErrMissingSecret, s2)
         else
     (case hasher_Hash svc (Secret (c_Credentials cli1)) s2 of
        (Inl err, s3) \<Rightarrow> (Inl (Wrap ErrMalformedEntity err), s3)
      | (Inr hash, s3) \<Rightarrow>
     (let cli2 = cli1\<lparr>c_Credentials := (c_Credentials cli1)\<lparr>Secret := hash\<rparr>\<rparr>
      in if c_Status cli2 \<noteq> DisabledStatus \<and> c_Status cli2 \<noteq> EnabledStatus
         then (Inl ErrInvalidStatus, s3)
         else if c_Role cli2 \<noteq> UserRole \<and> c_Role cli2 \<noteq> AdminRole
         then (Inl ErrInvalidRole, s3)
         else
           (let cli3 = cli2\<lparr>c_ID := clientID, c_CreatedAt := time_Now (us_clock svc) s3\<rparr>
            in case ur_Save (us_clients svc) cli3 of
                 Inl err \<Rightarrow> (Inl err, log (UsersSave cli3) s3)
               | Inr client \<Rightarrow> (Inr client, log (UsersSave cli3) s3)))))))"

definition parseToken :: "Token option \<Rightarrow> error + jwt_Token" where
  "parseToken tkn =
     (case tkn of
        None \<Rightarrow> Inl (ErrorsNew ''invalid token'')
      | Some t \<Rightarrow>
          (case t_ExtraRefreshToken t of
             None \<Rightarrow> Inl ErrAuthentication
           | Some refresh \<Rightarrow>
               Inr \<lparr>AccessToken = t_Value t, RefreshToken = refresh, AccessType = ''bearer''\<rparr>))"

definition IssueToken ::
  "users_service \<Rightarrow> string \<Rightarrow> string \<Rightarrow> state \<Rightarrow> (error + jwt_Token) \<times> state" where
  "IssueToken svc identity secret s =
     (case ur_RetrieveByIdentity (us_clients svc) identity of
        Inl err \<Rightarrow> (Inl err, log (ClientsRetrieveByIdentity identity) s)
      | Inr dbUser \<Rightarrow>
     (let s1 = log (HasherCompare secret (Secret (c_Credentials dbUser)))
                 (log (ClientsRetrieveByIdentity identity) s)
      in case h_Compare (us_hasher svc) secret (Secret (c_Credentials dbUser)) of
        Some err \<Rightarrow> (Inl (Wrap ErrLogin err), s1)
      | None \<Rightarrow>
     (let req = \<lparr>ir_Id = c_ID dbUser, ir_Email = Identity (c_Credentials dbUser), ir_Type = 0\<rparr>;
          s2 = log (AuthIssue req) s1
      in case a_Issue (us_auth svc) req of
           Inl err \<Rightarrow> (Inl (Wrap ErrNotFound err), s2)
         | Inr tkn \<Rightarrow> (parseToken tkn, s2))))"

definition ViewClient ::
  "users_service \<Rightarrow> string \<Rightarrow> string \<Rightarrow> state \<Rightarrow> (error + Client) \<times> state" where
  "ViewClient svc token clientID s =
     (case users_Identify svc token s of
        (Inl err, s1) \<Rightarrow> (Inl err, s1)
      | (Inr tokenUserID, s1) \<Rightarrow>
     (case (if tokenUserID \<noteq> clientID then isOwner svc clientID tokenUserID s1 else (None, s1)) of
        (Some err, s2) \<Rightarrow> (Inl err, s2)
      | (None, s2) \<Rightarrow>
     (case ur_RetrieveByID (us_clients svc) clientID of
        Inl err \<Rightarrow> (Inl err, log (ClientsRetrieveByID clientID) s2)
      | Inr client \<Rightarrow>
          (Inr (client\<lparr>c_Credentials := (c_Credentials client)\<lparr>Secret := []\<rparr>\<rparr>),
           log (ClientsRetrieveByID clientID) s2))))"

definition ViewProfile ::
  "users_service \<Rightarrow> string \<Rightarrow> state \<Rightarrow> (error + Client) \<times> state" where
  "ViewProfile svc token s =
     (case users_Identify svc token s of
        (Inl err, s1) \<Rightarrow> (Inl err, s1)
      | (Inr uid, s1) \<Rightarrow>
     (case ur_RetrieveByID (us_clients svc) uid of
        Inl err \<Rightarrow> (Inl err, log (ClientsRetrieveByID uid) s1)
      | Inr client \<Rightarrow>
          (Inr (client\<lparr>c_Credentials := (c_Credentials client)\<lparr>Secret := []\<rparr>\<rparr>),
           log (ClientsRetrieveByID uid) s1)))"

definition ResetSecret ::
  "users_service \<Rightarrow> string \<Rightarrow> string \<Rightarrow> state \<Rightarrow> error option \<times> state" where
  "ResetSecret svc resetToken secret s =
     (case users_Identify svc resetToken s of
        (Inl err, s1) \<Rightarrow> (Some (Wrap ErrAuthentication err), s1)
      | (Inr uid, s1) \<Rightarrow>
     (case ur_RetrieveByID (us_clients svc) uid of
        Inl err \<Rightarrow> (Some err, log (ClientsRetrieveByID uid) s1)
      | Inr c \<Rightarrow>
     (let s2 = log (ClientsRetrieveByID uid) s1
      in if Identity (c_Credentials c) = [] then (Some ErrNotFound, s2)
         else if \<not> us_passRegex svc secret then (Some ErrPasswordFormat, s2)
         else
     (case hasher_Hash svc secret s2 of
        (Inl err, s3) \<Rightarrow> (Some err, s3)
      | (Inr secret', s3) \<Rightarrow>
     (let c' = Client_zero\<lparr>c_Credentials :=
                              \<lparr>Identity = Identity (c_Credentials c), Secret = secret'\<rparr>,
                            c_UpdatedAt := time_Now (us_clock svc) s3,
                            c_UpdatedBy := uid\<rparr>
      in case ur_UpdateSecret (us_clients svc) c' of
           Inl err \<Rightarrow> (Some err, log (ClientsUpdateSecret c') s3)
         | Inr _ \<Rightarrow> (None, log (ClientsUpdateSecret c') s3))))))"

definition users_UpdateClientSecret ::
  "users_service \<Rightarrow> string \<Rightarrow> string \<Rightarrow> string \<Rightarrow> state \<Rightarrow> (error + Client) \<times> state" where
  "users_UpdateClientSecret svc token oldSecret newSecret s =
     (case users_Identify svc token s of
        (Inl err, s1) \<Rightarrow> (Inl err, s1)
      | (Inr uid, s1) \<Rightarrow>
     if \<not> us_passRegex svc newSecret then (Inl ErrPasswordFormat, s1)
     else
     (case ur_RetrieveByID (us_clients svc) uid of
        Inl err \<Rightarrow> (Inl err, log (ClientsRetrieveByID uid) s1)
      | Inr dbClient \<Rightarrow>
     (case IssueToken svc (Identity (c_Credentials dbClient)) oldSecret
             (log (ClientsRetrieveByID uid) s1) of
        (Inl err, s3) \<Rightarrow> (Inl err, s3)
      | (Inr _, s3) \<Rightarrow>
     (case hasher_Hash svc newSecret s3 of
        (Inl err, s4) \<Rightarrow> (Inl err, s4)
      | (Inr newSecret', s4) \<Rightarrow>
     (let dbClient' = dbClient\<lparr>c_Credentials := (c_Credentials dbClient)\<lparr>Secret := newSecret'\<rparr>,
                               c_UpdatedAt := time_Now (us_clock svc) s4,
                               c_UpdatedBy := uid\<rparr>
      in (ur_UpdateSecret (us_clients svc) dbClient', log (ClientsUpdateSecret dbClient') s4))))))"

definition users_changeClientStatus ::
  "users_service \<Rightarrow> string \<Rightarrow> Client \<Rightarrow> state \<Rightarrow> (error + Client) \<times> state" where
  "users_changeClientStatus svc token client s =
     (case users_Identify svc token s of
        (Inl err, s1) \<Rightarrow> (Inl err, s1)
      | (Inr tokenUserID, s1) \<Rightarrow>
     (case (if tokenUserID \<noteq> c_ID client then isOwner svc (c_ID client) tokenUserID s1
            else (None, s1)) of
        (Some err, s2) \<Rightarrow> (Inl err, s2)
      | (None, s2) \<Rightarrow>
     (case ur_RetrieveByID (us_clients svc) (c_ID client) of
        Inl err \<Rightarrow> (Inl err, log (ClientsRetrieveByID (c_ID client)) s2)
      | Inr dbClient \<Rightarrow>
     if c_Status dbClient = c_Status client
     then (Inl ErrStatusAlreadyAssigned, log (ClientsRetrieveByID (c_ID client)) s2)
     else
       (let client' = client\<lparr>c_UpdatedBy := tokenUserID\<rparr>
        in (ur_ChangeStatus (us_clients svc) client',
            log (ClientsChangeStatus client') (log (ClientsRetrieveByID (c_ID client)) s2))))))"


section \<open>Tree assembly (internal/groups/api/endpoints.go)\<close>

text \<open>
  \<open>buildGroupsResponseTree\<close> works on pointers into the backing array of \<open>page.Groups\<close>:
  \<open>groupsMap\<close> maps an id to the address of its group, \<open>parentsMap\<close> maps an id to the
  slice of the addresses of its children.  The array is the store; an address is an
  index of it.  A Go map is an association list with \<open>map_of\<close> for the lookup and
  \<open>AList.update\<close> for the assignment.  The order in which \<open>range groupsMap\<close> visits the
  keys is not fixed by the language: each of the three loops over \<open>groupsMap\<close> takes the
  order of its visit as a parameter.
\<close>

record groupPageRes =
  r_Total :: nat
  r_Offset :: nat
  r_Limit :: nat
  r_Level :: nat
  r_Groups :: "Group list"

type_synonym groupsMap = "(string \<times> ptr) list"

type_synonym parentsMap = "(string \<times> ptr list) list"

definition range_order :: "groupsMap \<Rightarrow> string list \<Rightarrow> bool" where
  "range_order gm ks = (distinct ks \<and> set ks = set (map fst gm))"

text \<open>First loop: \<open>for i := range page.Groups\<close>.\<close>

definition index_step :: "Group list \<Rightarrow> nat \<Rightarrow> groupsMap \<times> parentsMap \<Rightarrow> groupsMap \<times> parentsMap" where
  "index_step gs i m =
     (case m of (gm, pm) \<Rightarrow>
        (case map_of gm (g_ID (gs ! i)) of
           None \<Rightarrow> (AList.update (g_ID (gs ! i)) i gm, AList.update (g_ID (gs ! i)) [] pm)
         | Some _ \<Rightarrow> (gm, pm)))"

definition index_groups :: "Group list \<Rightarrow> groupsMap \<times> parentsMap" where
  "index_groups gs = fold (index_step gs) [0..<length gs] ([], [])"

text \<open>Second loop: each group is appended to the bucket of its parent, if there is one.\<close>

definition attach_step :: "Group list \<Rightarrow> groupsMap \<Rightarrow> string \<Rightarrow> parentsMap \<Rightarrow> parentsMap" where
  "attach_step store gm k pm =
     (case map_of gm k of
        None \<Rightarrow> pm
      | Some p \<Rightarrow>
          (case map_of pm (g_Parent (store ! p)) of
             Some children \<Rightarrow> AList.update (g_Parent (store ! p)) (children @ [p]) pm
           | None \<Rightarrow> pm))"

text \<open>Third loop: \<open>group.Children = children\<close> writes through the pointer.\<close>

definition children_step :: "parentsMap \<Rightarrow> groupsMap \<Rightarrow> string \<Rightarrow> Group list \<Rightarrow> Group list" where
  "children_step pm gm k store =
     (case map_of gm k of
        None \<Rightarrow> store
      | Some p \<Rightarrow>
          (case map_of pm (g_ID (store ! p)) of
             Some children \<Rightarrow> store[p := (store ! p)\<lparr>g_Children := children\<rparr>]
           | None \<Rightarrow> store))"

text \<open>Fourth loop: \<open>*group\<close> is copied into the view; it is appended when the bucket of
  its parent is missing or empty.\<close>

definition roots_step :: "Group list \<Rightarrow> parentsMap \<Rightarrow> groupsMap \<Rightarrow> string \<Rightarrow> Group list \<Rightarrow> Group list" where
  "roots_step store pm gm k res =
     (case map_of gm k of
        None \<Rightarrow> res
      | Some p \<Rightarrow>
          (let view = store ! p
           in case map_of pm (g_Parent (store ! p)) of
                Some children \<Rightarrow> if length children = 0 then res @ [view] else res
              | None \<Rightarrow> res @ [view]))"

text \<open>The result is the response together with the store that its pointers refer to.\<close>

definition buildGroupsResponseTree ::
  "Page \<Rightarrow> string list \<Rightarrow> string list \<Rightarrow> string list \<Rightarrow> groupPageRes \<times> Group list" where
  "buildGroupsResponseTree page order2 order3 order4 =
     (case index_groups (p_Groups page) of (gm, pm0) \<Rightarrow>
        (let pm = fold (attach_step (p_Groups page) gm) order2 pm0;
             store = fold (children_step pm gm) order3 (p_Groups page);
             res = fold (roots_step store pm gm) order4 []
         in (\<lparr>r_Total = p_Total page, r_Offset = p_Offset page, r_Limit = p_Limit page,
              r_Level = p_Level page, r_Groups = res\<rparr>, store)))"

text \<open>Reading a group of the response as a tree follows the pointers through the store;
  \<open>None\<close> when the fuel runs out or a pointer leaves the store.\<close>

datatype tree = Node string "tree list"

fun tree_of :: "nat \<Rightarrow> Group list \<Rightarrow> Group \<Rightarrow> tree option" where
  "tree_of 0 store g = None"
| "tree_of (Suc n) store g =
     (case those (map (\<lambda>p. if p < length store then tree_of n store (store ! p) else None)
                    (g_Children g)) of
        None \<Rightarrow> None
      | Some ts \<Rightarrow> Some (Node (g_ID g) ts))"


section \<open>Vocabulary of the properties\<close>

text \<open>The authorization requests of the groups service for a token and a group.\<close>

definition view_req :: "string \<Rightarrow> string \<Rightarrow> Req" where
  "view_req token groupID =
     \<lparr>SubjectType = userType, SubjectKind = tokenKind, Subject = token, Relation = [],
      Permission = viewPermission, ObjectType = groupType, Object = groupID\<rparr>"

definition edit_req :: "string \<Rightarrow> string \<Rightarrow> Req" where
  "edit_req token groupID =
     \<lparr>SubjectType = userType, SubjectKind = tokenKind, Subject = token, Relation = [],
      Permission = editPermission, ObjectType = groupType, Object = groupID\<rparr>"

text \<open>The authorization request of the things service for a user, a permission and a thing.\<close>

definition thing_req :: "string \<Rightarrow> string \<Rightarrow> string \<Rightarrow> Req" where
  "thing_req userID permission thingID =
     \<lparr>SubjectType = userType, SubjectKind = [], Subject = userID, Relation = [],
      Permission = permission, ObjectType = thingType, Object = thingID\<rparr>"

text \<open>The error with which an answer of the policy engine denies a request: a transport
  error is wrapped, a negative answer is the plain authorization error, a grant is none.\<close>

definition denial :: "error + (bool \<times> string) \<Rightarrow> error option" where
  "denial res =
     (case res of
        Inl err \<Rightarrow> Some (Wrap ErrAuthorization err)
      | Inr (authorized, _) \<Rightarrow> if authorized then None else Some ErrAuthorization)"

text \<open>The calls that write: to a repository, to the tuple store, to the cache.\<close>

fun is_write :: "call \<Rightarrow> bool" where
  "is_write (GroupsSave _) = True"
| "is_write (GroupsChangeStatus _) = True"
| "is_write (AuthAddPolicy _) = True"
| "is_write (AuthDeletePolicy _) = True"
| "is_write (ThingsSave _) = True"
| "is_write (UsersSave _) = True"
| "is_write (ClientsUpdateSecret _) = True"
| "is_write (ClientsChangeStatus _) = True"
| "is_write (CacheSave _ _) = True"
| "is_write (CacheRemove _) = True"
| "is_write _ = False"

text \<open>\<open>guarded a cs\<close>: no write of \<open>cs\<close> comes before the first occurrence of the call \<open>a\<close>.\<close>

fun guarded :: "call \<Rightarrow> call list \<Rightarrow> bool" where
  "guarded a [] = True"
| "guarded a (c # cs) = (c = a \<or> (\<not> is_write c \<and> guarded a cs))"

fun is_ChangeStatus :: "call \<Rightarrow> bool" where
  "is_ChangeStatus (GroupsChangeStatus _) = True"
| "is_ChangeStatus (ClientsChangeStatus _) = True"
| "is_ChangeStatus _ = False"

text \<open>The identity that \<open>RegisterClient\<close> keeps of the answer of \<open>Identify\<close>.\<close>

definition owner_of :: "error + string \<Rightarrow> string" where
  "owner_of res = (case res of Inl _ \<Rightarrow> [] | Inr uid \<Rightarrow> uid)"



text \<open>The part of \<open>CreateGroup\<close> from the call of \<open>Save\<close> to the end, under a name of its
  own for the proofs; \<open>CreateGroup_persist_eq\<close> below shows that it is that part.\<close>

definition CreateGroup_persist ::
  "groups_service \<Rightarrow> string \<Rightarrow> Group \<Rightarrow> state \<Rightarrow> (error + Group) \<times> state" where
  "CreateGroup_persist svc ownerID g2 s3 =
     (case gr_Save (gs_groups svc) g2 of
        Inl err \<Rightarrow> (Inl err, log (GroupsSave g2) s3)
      | Inr g3 \<Rightarrow>
     (case gs_AddPolicy svc
             \<lparr>SubjectType = userType, SubjectKind = [], Subject = ownerID,
              Relation = ownerRelation, Permission = [], ObjectType = groupType,
              Object = g_ID g3\<rparr> (log (GroupsSave g2) s3) of
        (Inl err, s5) \<Rightarrow> (Inl err, s5)
      | (Inr _, s5) \<Rightarrow>
     if g_Parent g3 \<noteq> []
     then (case gs_AddPolicy svc
                  \<lparr>SubjectType = groupType, SubjectKind = [], Subject = g_Parent g3,
                   Relation = parentGroupRelation, Permission = [], ObjectType = groupType,
                   Object = g_ID g3\<rparr> s5 of
             (Inl err, s6) \<Rightarrow> (Inl err, s6)
           | (Inr _, s6) \<Rightarrow> (Inr g3, s6))
     else (Inr g3, s5)))"

text \<open>A users service that differs from \<open>svc\<close> in the answers of \<open>Identify\<close> only.\<close>

definition with_Identify :: "users_service \<Rightarrow> (string \<Rightarrow> error + string) \<Rightarrow> users_service" where
  "with_Identify svc f = svc\<lparr>us_auth := (us_auth svc)\<lparr>a_Identify := f\<rparr>\<rparr>"

text \<open>\<open>RegisterClient\<close> from its second statement on, for a given \<open>ownerID\<close>, under a name
  of its own for the proofs; \<open>RegisterClient_as_eq\<close> below shows that it is that part.\<close>

definition RegisterClient_as ::
  "users_service \<Rightarrow> string \<Rightarrow> Client \<Rightarrow> state \<Rightarrow> (error + Client) \<times> state" where
  "RegisterClient_as svc ownerID cli s1 =
     (case idProvider_ID (us_idProvider svc) s1 of
        (Inl err, s2) \<Rightarrow> (Inl err, s2)
      | (Inr clientID, s2) \<Rightarrow>
     (let cli1 = (if c_Owner cli = [] \<and> ownerID \<noteq> [] then cli\<lparr>c_Owner := ownerID\<rparr> else cli)
      in if Secret (c_Credentials cli1) = [] then (Inl ErrMissingSecret, s2)
         else
     (case hasher_Hash svc (Secret (c_Credentials cli1)) s2 of
        (Inl err, s3) \<Rightarrow> (Inl (Wrap ErrMalformedEntity err), s3)
      | (Inr hash, s3) \<Rightarrow>
     (let cli2 = cli1\<lparr>c_Credentials := (c_Credentials cli1)\<lparr>Secret := hash\<rparr>\<rparr>
      in if c_Status cli2 \<noteq> DisabledStatus \<and> c_Status cli2 \<noteq> EnabledStatus
         then (Inl ErrInvalidStatus, s3)
         else if c_Role cli2 \<noteq> UserRole \<and> c_Role cli2 \<noteq> AdminRole
         then (Inl ErrInvalidRole, s3)
         else
           (let cli3 = cli2\<lparr>c_ID := clientID, c_CreatedAt := time_Now (us_clock svc) s3\<rparr>
            in case ur_Save (us_clients svc) cli3 of
                 Inl err \<Rightarrow> (Inl err, log (UsersSave cli3) s3)
               | Inr client \<Rightarrow> (Inr client, log (UsersSave cli3) s3))))))"

text \<open>One iteration of the loop of \<open>CreateThings\<close>: the client as it will be stored, under
  a name of its own for the proofs; \<open>CreateThings_loop_step\<close> below shows that the loop
  runs it.\<close>

definition CreateThings_step ::
  "things_service \<Rightarrow> string \<Rightarrow> Client \<Rightarrow> state \<Rightarrow> (error + Client) \<times> state" where
  "CreateThings_step svc userID cli s =
     (case (if c_ID cli = []
            then (case idProvider_ID (ts_idProvider svc) s of
                    (Inl err, s1) \<Rightarrow> (Inl err, s1)
                  | (Inr clientID, s1) \<Rightarrow> (Inr (cli\<lparr>c_ID := clientID\<rparr>), s1))
            else (Inr cli, s)) of
        (Inl err, s1) \<Rightarrow> (Inl err, s1)
      | (Inr cli1, s1) \<Rightarrow>
     (case (if Secret (c_Credentials cli1) = []
            then (case idProvider_ID (ts_idProvider svc) s1 of
                    (Inl err, s2) \<Rightarrow> (Inl err, s2)
                  | (Inr key, s2) \<Rightarrow>
                      (Inr (cli1\<lparr>c_Credentials := (c_Credentials cli1)\<lparr>Secret := key\<rparr>\<rparr>), s2))
            else (Inr cli1, s1)) of
        (Inl err, s2) \<Rightarrow> (Inl err, s2)
      | (Inr cli2, s2) \<Rightarrow>
     (let cli3 = (if c_Owner cli2 = [] then cli2\<lparr>c_Owner := userID\<rparr> else cli2)
      in if c_Status cli3 \<noteq> DisabledStatus \<and> c_Status cli3 \<noteq> EnabledStatus
         then (Inl ErrInvalidStatus, s2)
         else (Inr (cli3\<lparr>c_CreatedAt := time_Now (ts_clock svc) s2\<rparr>), s2))))"

text \<open>\<open>only_ids s s'\<close>: from \<open>s\<close> to \<open>s'\<close> the id provider alone has been called.\<close>

definition only_ids :: "state \<Rightarrow> state \<Rightarrow> bool" where
  "only_ids s s' = (\<exists>post. trace s' = trace s @ post \<and> set post \<subseteq> {IDProviderID})"

text \<open>\<open>kept cli c\<close>: the client \<open>c\<close> handed to the repository has the secret that was
  supplied with \<open>cli\<close>, when one was supplied.\<close>

definition kept :: "Client \<Rightarrow> Client \<Rightarrow> bool" where
  "kept cli c = (Secret (c_Credentials cli) \<noteq> [] \<longrightarrow>
     Secret (c_Credentials c) = Secret (c_Credentials cli))"

section \<open>Concrete collaborators for the worked examples\<close>

definition demo_auth :: AuthServiceClient where
  "demo_auth =
     \<lparr>a_Identify = (\<lambda>token. if token = ''tok'' then Inr ''u1'' else Inl ErrAuthentication),
      a_Authorize = (\<lambda>req. if Object req = ''secret-group'' then Inr (False, [])
                            else Inr (True, ''u1'')),
      a_AddPolicy = (\<lambda>_. Inr True),
      a_DeletePolicy = (\<lambda>_. Inr True),
      a_ListAllObjects = (\<lambda>_. Inr [''A'', ''B'', ''C'']),
      a_ListAllSubjects = (\<lambda>_. Inr [''B'', ''C'', ''D'']),
      a_Issue = (\<lambda>_. Inr (Some \<lparr>t_Value = ''access'', t_ExtraRefreshToken = Some ''refresh''\<rparr>))\<rparr>"

definition demo_groups :: GroupsRepository where
  "demo_groups =
     \<lparr>gr_Save = (\<lambda>g. Inr g),
      gr_RetrieveByID = (\<lambda>gid. Inr (Group_zero\<lparr>g_ID := gid\<rparr>)),
      gr_RetrieveByIDs =
        (\<lambda>gm ids. Inr (gm\<lparr>p_Groups := map (\<lambda>i. Group_zero\<lparr>g_ID := i\<rparr>) ids\<rparr>)),
      gr_ChangeStatus = (\<lambda>g. Inr g)\<rparr>"

definition demo_idp :: IDProvider where
  "demo_idp n = Inr (replicate (Suc n) CHR ''i'')"

definition demo_groups_service :: groups_service where
  "demo_groups_service =
     \<lparr>gs_groups = demo_groups, gs_auth = demo_auth, gs_idProvider = demo_idp,
      gs_clock = (\<lambda>n. n)\<rparr>"

definition demo_things :: ThingsRepository where
  "demo_things =
     \<lparr>tr_Save = (\<lambda>cs. Inr cs),
      tr_RetrieveByID = (\<lambda>tid. Inr (Client_zero\<lparr>c_ID := tid\<rparr>)),
      tr_RetrieveBySecret =
        (\<lambda>key. if key = ''key-1'' then Inr (Client_zero\<lparr>c_ID := ''thing-1''\<rparr>)
                else Inl ErrNotFound),
      tr_UpdateSecret = (\<lambda>c. Inr c),
      tr_ChangeStatus = (\<lambda>c. Inr c)\<rparr>"

definition demo_things_service :: things_service where
  "demo_things_service =
     \<lparr>ts_auth = demo_auth, ts_clients = demo_things, ts_clientCache = (\<lambda>_. None),
      ts_idProvider = demo_idp, ts_clock = (\<lambda>n. n)\<rparr>"

definition demo_user :: "string \<Rightarrow> Client" where
  "demo_user uid =
     Client_zero\<lparr>c_ID := uid,
       c_Credentials := \<lparr>Identity = ''u1@example.com'', Secret = ''hash:old-secret''\<rparr>\<rparr>"

definition demo_users :: UsersRepository where
  "demo_users =
     \<lparr>ur_Save = (\<lambda>c. Inr c),
      ur_RetrieveByID = (\<lambda>uid. Inr (demo_user uid)),
      ur_RetrieveByIdentity = (\<lambda>_. Inr (demo_user ''u1'')),
      ur_UpdateSecret = (\<lambda>c. Inr c),
      ur_ChangeStatus = (\<lambda>c. Inr c),
      ur_IsOwner = (\<lambda>_ _. None)\<rparr>"

definition demo_hasher :: Hasher where
  "demo_hasher =
     \<lparr>h_Hash = (\<lambda>secret. Inr (''hash:'' @ secret)),
      h_Compare = (\<lambda>plain hashed. if hashed = ''hash:'' @ plain then None
                                   else Some (Upstream ''mismatch''))\<rparr>"

definition demo_users_service :: users_service where
  "demo_users_service =
     \<lparr>us_clients = demo_users, us_idProvider = demo_idp, us_auth = demo_auth,
      us_hasher = demo_hasher, us_passRegex = (\<lambda>secret. 8 \<le> length secret),
      us_clock = (\<lambda>n. n)\<rparr>"

definition s0 :: state where
  "s0 = \<lparr>trace = [], issued = 0, cache = Map.empty\<rparr>"

definition demo_thing :: Client where
  "demo_thing =
     Client_zero\<lparr>c_ID := ''t1'', c_Credentials := \<lparr>Identity = [], Secret = ''raw-key''\<rparr>\<rparr>"

definition new_user :: Client where
  "new_user =
     Client_zero\<lparr>c_Credentials := \<lparr>Identity = ''u2@example.com'', Secret = ''password1''\<rparr>\<rparr>"

text \<open>The clients that the example runs hand to the repositories.\<close>

definition saved_user :: Client where
  "saved_user =
     new_user\<lparr>c_Owner := ''u1'',
       c_Credentials := \<lparr>Identity = ''u2@example.com'', Secret = ''hash:password1''\<rparr>,
       c_ID := ''i'', c_CreatedAt := 3\<rparr>"

definition reset_user :: Client where
  "reset_user =
     Client_zero\<lparr>c_Credentials := \<lparr>Identity = ''u1@example.com'', Secret = ''hash:new-secret''\<rparr>,
       c_UpdatedAt := 3, c_UpdatedBy := ''u1''\<rparr>"

definition updated_user :: Client where
  "updated_user =
     (demo_user ''u1'')\<lparr>c_Credentials :=
         \<lparr>Identity = ''u1@example.com'', Secret = ''hash:new-secret''\<rparr>,
       c_UpdatedAt := 6, c_UpdatedBy := ''u1''\<rparr>"

definition saved_thing :: Client where
  "saved_thing = demo_thing\<lparr>c_Owner := ''u1'', c_CreatedAt := 1\<rparr>"

definition rekeyed_thing :: Client where
  "rekeyed_thing =
     Client_zero\<lparr>c_ID := ''t1'', c_Credentials := \<lparr>Identity = [], Secret = ''raw-key''\<rparr>,
       c_UpdatedAt := 2, c_UpdatedBy := ''u1''\<rparr>"

text \<open>The pages of the two tree assembly examples.\<close>

definition grp_of :: "string \<Rightarrow> string \<Rightarrow> Group" where
  "grp_of gid parent = Group_zero\<lparr>g_ID := gid, g_Parent := parent\<rparr>"

definition page_of :: "Group list \<Rightarrow> Page" where
  "page_of gs =
     \<lparr>p_Total = length gs, p_Offset = 0, p_Limit = 10, p_Path = [], p_Level = 0, p_ID = [],
      p_Direction = 1, p_Groups = gs\<rparr>"

definition chain_page :: Page where
  "chain_page = page_of [grp_of ''1'' [], grp_of ''2'' ''1'', grp_of ''3'' ''2'']"

definition orphan_page :: Page where
  "orphan_page = page_of [grp_of ''2'' ''1'']"

text \<open>The two maps that the first two loops build from the page of the first example.\<close>

definition chain_gm :: groupsMap where
  "chain_gm = [(''1'', 0), (''2'', Suc 0), (''3'', Suc (Suc 0))]"

definition chain_pm :: parentsMap where
  "chain_pm = [(''1'', [Suc 0]), (''2'', [Suc (Suc 0)]), (''3'', [])]"

section \<open>Properties\<close>

lemmas const_defs = ownerRelation_def groupRelation_def parentGroupRelation_def usersKind_def
  groupsKind_def thingsKind_def userType_def groupType_def thingType_def deletePermission_def
  editPermission_def viewPermission_def tokenKind_def

lemmas demo_defs = demo_auth_def demo_groups_def demo_idp_def demo_groups_service_def
  demo_things_def demo_things_service_def demo_user_def demo_users_def demo_hasher_def
  demo_users_service_def s0_def

lemma trace_log [simp]: "trace (log c s) = trace s @ [c]"
  by (simp add: log_def)

lemma issued_log [simp]: "issued (log c s) = issued s"
  by (simp add: log_def)

lemma cache_log [simp]: "cache (log c s) = cache s"
  by (simp add: log_def)

lemma wrap_neq: "Wrap a e \<noteq> e"
  by (induction e arbitrary: a) auto

lemma gs_authorize_eq:
  "gs_authorize svc userType token editPermission groupType obj s
     = (case denial (a_Authorize (gs_auth svc) (edit_req token obj)) of
          Some e \<Rightarrow> Inl e
        | None \<Rightarrow> Inr (snd (projr (a_Authorize (gs_auth svc) (edit_req token obj)))),
        log (AuthAuthorize (edit_req token obj)) s)"
  by (simp add: gs_authorize_def edit_req_def denial_def Let_def split: sum.splits prod.splits)

lemma ts_authorize_eq:
  "ts_authorize svc userType userID permission thingType obj s
     = (denial (a_Authorize (ts_auth svc) (thing_req userID permission obj)),
        log (AuthAuthorize (thing_req userID permission obj)) s)"
  by (simp add: ts_authorize_def thing_req_def denial_def Let_def split: sum.splits prod.splits)

text \<open>
  Claim C1, as the code has it.  With a member kind that the switch does not know,
  \<open>ListMembers\<close>, \<open>Assign\<close> and \<open>Unassign\<close> make exactly one call, the authorization of the
  token on the group (view for \<open>ListMembers\<close>, edit for the other two), and no other: when
  the policy engine grants it they fail with the invalid-kind error, when it denies or is
  unreachable they fail with the authorization error.
\<close>

theorem C1_invalid_kind_after_authorize:
  "(memberKind \<noteq> thingsKind \<and> memberKind \<noteq> usersKind \<longrightarrow>
      calls s (snd (ListMembers svc token groupID permission memberKind s))
        = [AuthAuthorize (view_req token groupID)]
    \<and> fst (ListMembers svc token groupID permission memberKind s)
        = Inl (case denial (a_Authorize (gs_auth svc) (view_req token groupID)) of
                 Some err \<Rightarrow> err | None \<Rightarrow> Errorf ''invalid member_kind''))
   \<and> (memberKind \<noteq> thingsKind \<and> memberKind \<noteq> groupsKind \<and> memberKind \<noteq> usersKind \<longrightarrow>
      calls s (snd (Assign svc token groupID relation memberKind memberIDs s))
        = [AuthAuthorize (edit_req token groupID)]
    \<and> fst (Assign svc token groupID relation memberKind memberIDs s)
        = Some (case denial (a_Authorize (gs_auth svc) (edit_req token groupID)) of
                 Some err \<Rightarrow> err | None \<Rightarrow> Errorf ''invalid member kind'')
    \<and> calls s (snd (Unassign svc token groupID relation memberKind memberIDs s))
        = [AuthAuthorize (edit_req token groupID)]
    \<and> fst (Unassign svc token groupID relation memberKind memberIDs s)
        = Some (case denial (a_Authorize (gs_auth svc) (edit_req token groupID)) of
                 Some err \<Rightarrow> err | None \<Rightarrow> Errorf ''invalid member kind''))"
  by (auto simp: ListMembers_def Assign_def Unassign_def gs_authorize_def member_policies_def
      view_req_def edit_req_def denial_def calls_def Let_def split: sum.splits prod.splits)

theorem C1_invalid_kind_after_authorize_witness:
  "''channels'' \<noteq> thingsKind \<and> ''channels'' \<noteq> groupsKind \<and> ''channels'' \<noteq> usersKind
   \<and> fst (ListMembers demo_groups_service ''tok'' ''g1'' ''view'' ''channels'' s0)
       = Inl (Errorf ''invalid member_kind'')
   \<and> fst (Assign demo_groups_service ''tok'' ''g1'' ''member'' ''channels'' [''m1''] s0)
       = Some (Errorf ''invalid member kind'')
   \<and> fst (Unassign demo_groups_service ''tok'' ''g1'' ''member'' ''channels'' [''m1''] s0)
       = Some (Errorf ''invalid member kind'')"
  using C1_invalid_kind_after_authorize [where memberKind = "''channels''" and s = s0
      and svc = demo_groups_service and token = "''tok''" and groupID = "''g1''"
      and permission = "''view''" and relation = "''member''" and memberIDs = "[''m1'']"]
  by (simp add: demo_defs const_defs denial_def edit_req_def view_req_def)

text \<open>
  Claim C1 as stated fails: with the unsupported kind \<open>channels\<close> each of the three
  operations has made a network call, the authorization, before it fails; and on a group
  the caller may not view the error is the authorization error, not the invalid-kind one.
\<close>

theorem C1_zero_calls_counterexample:
  "calls s0 (snd (ListMembers demo_groups_service ''tok'' ''g1'' ''view'' ''channels'' s0))
     = [AuthAuthorize (view_req ''tok'' ''g1'')]
   \<and> calls s0 (snd (Assign demo_groups_service ''tok'' ''g1'' ''member'' ''channels'' [''m1''] s0))
     = [AuthAuthorize (edit_req ''tok'' ''g1'')]
   \<and> calls s0 (snd (Unassign demo_groups_service ''tok'' ''g1'' ''member'' ''channels'' [''m1''] s0))
     = [AuthAuthorize (edit_req ''tok'' ''g1'')]
   \<and> fst (ListMembers demo_groups_service ''tok'' ''secret-group'' ''view'' ''channels'' s0)
     = Inl ErrAuthorization"
  by (simp add: ListMembers_def Assign_def Unassign_def gs_authorize_def member_policies_def
      view_req_def edit_req_def demo_defs const_defs calls_def Let_def)


subsection \<open>CreateGroup: the parent is authorized before anything is written\<close>

lemma CreateGroup_persist_eq:
  "CreateGroup svc token g s =
     (case gs_identify svc token s of
        (Inl err, s1) \<Rightarrow> (Inl err, s1)
      | (Inr ownerID, s1) \<Rightarrow>
     (case idProvider_ID (gs_idProvider svc) s1 of
        (Inl err, s2) \<Rightarrow> (Inl err, s2)
      | (Inr groupID, s2) \<Rightarrow>
     if g_Status g \<noteq> EnabledStatus \<and> g_Status g \<noteq> DisabledStatus
     then (Inl ErrInvalidStatus, s2)
     else
       let g1 = (if g_Owner g = [] then g\<lparr>g_Owner := ownerID\<rparr> else g);
           g2 = g1\<lparr>g_ID := groupID, g_CreatedAt := time_Now (gs_clock svc) s2\<rparr>
       in
     (case (if g_Parent g2 \<noteq> []
            then (case gs_authorize svc userType token editPermission groupType (g_Parent g2) s2 of
                    (Inl err, s3) \<Rightarrow> (Some (Wrap errParentUnAuthz err), s3)
                  | (Inr _, s3) \<Rightarrow> (None, s3))
            else (None, s2)) of
        (Some err, s3) \<Rightarrow> (Inl err, s3)
      | (None, s3) \<Rightarrow> CreateGroup_persist svc ownerID g2 s3)))"
  unfolding CreateGroup_def CreateGroup_persist_def by (rule refl)

lemma CreateGroup_persist_trace:
  "\<exists>post. trace (snd (CreateGroup_persist svc ownerID g2 s3)) = trace s3 @ post"
  by (simp add: CreateGroup_persist_def gs_AddPolicy_def split: sum.splits)

lemma g_Parent_prepared [simp]:
  "g_Parent ((if c then g\<lparr>g_Owner := o1\<rparr> else g)\<lparr>g_ID := i, g_CreatedAt := t\<rparr>) = g_Parent g"
  by simp

lemma CreateGroup_granted:
  assumes "a_Identify (gs_auth svc) token = Inr ownerID"
    and "gs_idProvider svc (issued s) = Inr groupID"
    and "g_Status g = EnabledStatus \<or> g_Status g = DisabledStatus"
    and "g_Parent g \<noteq> []"
    and "denial (a_Authorize (gs_auth svc) (edit_req token (g_Parent g))) = None"
  shows "\<exists>post. calls s (snd (CreateGroup svc token g s))
     = [AuthIdentify token, IDProviderID, AuthAuthorize (edit_req token (g_Parent g))] @ post"
proof -
  define s2 where "s2 = log IDProviderID (log (AuthIdentify token) s\<lparr>issued := Suc (issued s)\<rparr>)"
  define s3 where "s3 = log (AuthAuthorize (edit_req token (g_Parent g))) s2"
  define g2 where "g2 = (if g_Owner g = [] then g\<lparr>g_Owner := ownerID\<rparr> else g)
     \<lparr>g_ID := groupID, g_CreatedAt := time_Now (gs_clock svc) s2\<rparr>"
  have run: "CreateGroup svc token g s = CreateGroup_persist svc ownerID g2 s3"
    using assms
    by (elim disjE)
      (simp_all add: CreateGroup_persist_eq gs_identify_def idProvider_ID_def gs_authorize_eq
        Let_def s2_def s3_def g2_def)
  obtain post where "trace (snd (CreateGroup_persist svc ownerID g2 s3)) = trace s3 @ post"
    using CreateGroup_persist_trace by blast
  then show ?thesis
    by (simp add: run calls_def s3_def s2_def)
qed

lemma CreateGroup_denied:
  assumes "a_Identify (gs_auth svc) token = Inr ownerID"
    and "gs_idProvider svc (issued s) = Inr groupID"
    and "g_Status g = EnabledStatus \<or> g_Status g = DisabledStatus"
    and "g_Parent g \<noteq> []"
    and "denial (a_Authorize (gs_auth svc) (edit_req token (g_Parent g))) = Some e"
  shows "fst (CreateGroup svc token g s) = Inl (Wrap errParentUnAuthz e)"
    and "calls s (snd (CreateGroup svc token g s))
     = [AuthIdentify token, IDProviderID, AuthAuthorize (edit_req token (g_Parent g))]"
  using assms
  by (auto simp: CreateGroup_persist_eq gs_identify_def idProvider_ID_def gs_authorize_eq
      calls_def)

lemma CreateGroup_early:
  assumes "(\<exists>e. a_Identify (gs_auth svc) token = Inl e)
     \<or> (\<exists>e. gs_idProvider svc (issued s) = Inl e)
     \<or> (g_Status g \<noteq> EnabledStatus \<and> g_Status g \<noteq> DisabledStatus)"
  shows "calls s (snd (CreateGroup svc token g s)) = [AuthIdentify token]
     \<or> calls s (snd (CreateGroup svc token g s)) = [AuthIdentify token, IDProviderID]"
  using assms
  by (cases "a_Identify (gs_auth svc) token"; cases "gs_idProvider svc (issued s)")
    (auto simp: CreateGroup_persist_eq gs_identify_def idProvider_ID_def calls_def)

text \<open>
  Claim C2.  For a group with a non-empty parent, no write (no \<open>Save\<close>, no tuple) comes
  before the edit authorization of the token on the parent; and when that authorization
  is made and denied, \<open>CreateGroup\<close> has made three calls only (identify, a fresh id, the
  authorization: no \<open>Save\<close>, no \<open>AddPolicy\<close>) and returns the denial wrapped in the
  parent-authorization error, which is not the plain denial.
\<close>

theorem C2_parent_authorized_before_write:
  "g_Parent g \<noteq> [] \<longrightarrow>
     guarded (AuthAuthorize (edit_req token (g_Parent g)))
       (calls s (snd (CreateGroup svc token g s)))
   \<and> (AuthAuthorize (edit_req token (g_Parent g)) \<in> set (calls s (snd (CreateGroup svc token g s)))
        \<and> denial (a_Authorize (gs_auth svc) (edit_req token (g_Parent g))) = Some err
      \<longrightarrow> fst (CreateGroup svc token g s) = Inl (Wrap errParentUnAuthz err)
        \<and> fst (CreateGroup svc token g s) \<noteq> Inl err
        \<and> calls s (snd (CreateGroup svc token g s))
            = [AuthIdentify token, IDProviderID, AuthAuthorize (edit_req token (g_Parent g))])"
proof (intro impI)
  assume P: "g_Parent g \<noteq> []"
  let ?req = "edit_req token (g_Parent g)"
  let ?cs = "calls s (snd (CreateGroup svc token g s))"
  consider
    (early) "(\<exists>e. a_Identify (gs_auth svc) token = Inl e)
       \<or> (\<exists>e. gs_idProvider svc (issued s) = Inl e)
       \<or> (g_Status g \<noteq> EnabledStatus \<and> g_Status g \<noteq> DisabledStatus)"
  | (reached) ownerID groupID where "a_Identify (gs_auth svc) token = Inr ownerID"
      "gs_idProvider svc (issued s) = Inr groupID"
      "g_Status g = EnabledStatus \<or> g_Status g = DisabledStatus"
    by (cases "a_Identify (gs_auth svc) token"; cases "gs_idProvider svc (issued s)") auto
  then show "guarded (AuthAuthorize ?req) ?cs
   \<and> (AuthAuthorize ?req \<in> set ?cs \<and> denial (a_Authorize (gs_auth svc) ?req) = Some err
      \<longrightarrow> fst (CreateGroup svc token g s) = Inl (Wrap errParentUnAuthz err)
        \<and> fst (CreateGroup svc token g s) \<noteq> Inl err
        \<and> ?cs = [AuthIdentify token, IDProviderID, AuthAuthorize ?req])"
  proof cases
    case early
    from CreateGroup_early [OF early] show ?thesis by auto
  next
    case reached
    show ?thesis
    proof (cases "denial (a_Authorize (gs_auth svc) ?req)")
      case None
      from CreateGroup_granted [OF reached P None] obtain post
        where "?cs = [AuthIdentify token, IDProviderID, AuthAuthorize ?req] @ post" by blast
      with None show ?thesis by simp
    next
      case (Some e)
      from CreateGroup_denied [OF reached P Some] Some show ?thesis
        by (simp add: wrap_neq)
    qed
  qed
qed

theorem C2_parent_authorized_before_write_witness:
  "g_Parent (grp_of [] ''secret-group'') \<noteq> []
   \<and> AuthAuthorize (edit_req ''tok'' ''secret-group'')
       \<in> set (calls s0 (snd (CreateGroup demo_groups_service ''tok'' (grp_of [] ''secret-group'') s0)))
   \<and> denial (a_Authorize (gs_auth demo_groups_service) (edit_req ''tok'' ''secret-group''))
       = Some ErrAuthorization
   \<and> fst (CreateGroup demo_groups_service ''tok'' (grp_of [] ''secret-group'') s0)
       = Inl (Wrap errParentUnAuthz ErrAuthorization)
   \<and> calls s0 (snd (CreateGroup demo_groups_service ''tok'' (grp_of [] ''secret-group'') s0))
       = [AuthIdentify ''tok'', IDProviderID, AuthAuthorize (edit_req ''tok'' ''secret-group'')]"
proof -
  have p: "g_Parent (grp_of [] ''secret-group'') = ''secret-group''"
    by (simp add: grp_of_def Group_zero_def)
  have d: "denial (a_Authorize (gs_auth demo_groups_service) (edit_req ''tok'' ''secret-group''))
       = Some ErrAuthorization"
    by (simp add: demo_defs denial_def edit_req_def)
  have c: "calls s0 (snd (CreateGroup demo_groups_service ''tok'' (grp_of [] ''secret-group'') s0))
       = [AuthIdentify ''tok'', IDProviderID, AuthAuthorize (edit_req ''tok'' ''secret-group'')]"
    using CreateGroup_denied(2) [where svc = demo_groups_service and token = "''tok''"
        and g = "grp_of [] ''secret-group''" and s = s0 and ownerID = "''u1''"
        and groupID = "''i''" and e = ErrAuthorization] d
    by (simp add: p) (simp add: demo_defs grp_of_def Group_zero_def)
  show ?thesis
    using C2_parent_authorized_before_write [where g = "grp_of [] ''secret-group''"
        and token = "''tok''" and svc = demo_groups_service and s = s0
        and err = ErrAuthorization] d c
    by (simp add: p)
qed

subsection \<open>ListGroups: the candidate ids\<close>





subsection \<open>Status changes: a no-op transition is a conflict\<close>

text \<open>
  Claim C5.  When the stored record has the requested status, \<open>changeGroupStatus\<close> and
  both \<open>changeClientStatus\<close> (things, users) never call the repository's \<open>ChangeStatus\<close>;
  and once the caller has passed the operation's permission check (edit on the group,
  delete on the thing, identity or ownership of the user) the result is the
  status-already-assigned error.
\<close>

theorem C5_same_status_is_conflict:
  "(gr_RetrieveByID (gs_groups gsvc) (g_ID grp) = Inr dbGroup \<and> g_Status dbGroup = g_Status grp \<longrightarrow>
      \<not> list_ex is_ChangeStatus (calls s (snd (changeGroupStatus gsvc token grp s)))
    \<and> (denial (a_Authorize (gs_auth gsvc) (edit_req token (g_ID grp))) = None \<longrightarrow>
         fst (changeGroupStatus gsvc token grp s) = Inl ErrStatusAlreadyAssigned))
   \<and> (tr_RetrieveByID (ts_clients tsvc) (c_ID thing) = Inr dbThing
        \<and> c_Status dbThing = c_Status thing \<longrightarrow>
      \<not> list_ex is_ChangeStatus (calls s (snd (things_changeClientStatus tsvc token thing s)))
    \<and> (a_Identify (ts_auth tsvc) token = Inr userID
        \<and> denial (a_Authorize (ts_auth tsvc) (thing_req userID deletePermission (c_ID thing)))
            = None \<longrightarrow>
         fst (things_changeClientStatus tsvc token thing s) = Inl ErrStatusAlreadyAssigned))
   \<and> (ur_RetrieveByID (us_clients usvc) (c_ID user) = Inr dbUser
        \<and> c_Status dbUser = c_Status user \<longrightarrow>
      \<not> list_ex is_ChangeStatus (calls s (snd (users_changeClientStatus usvc token user s)))
    \<and> (a_Identify (us_auth usvc) token = Inr userID
        \<and> (userID \<noteq> c_ID user \<longrightarrow> ur_IsOwner (us_clients usvc) (c_ID user) userID = None)
        \<longrightarrow> fst (users_changeClientStatus usvc token user s) = Inl ErrStatusAlreadyAssigned))"
proof (intro conjI impI)
  assume "gr_RetrieveByID (gs_groups gsvc) (g_ID grp) = Inr dbGroup
    \<and> g_Status dbGroup = g_Status grp"
  then show "\<not> list_ex is_ChangeStatus (calls s (snd (changeGroupStatus gsvc token grp s)))"
    by (simp add: changeGroupStatus_def gs_authorize_eq calls_def split: option.splits)
next
  assume "gr_RetrieveByID (gs_groups gsvc) (g_ID grp) = Inr dbGroup
    \<and> g_Status dbGroup = g_Status grp"
    "denial (a_Authorize (gs_auth gsvc) (edit_req token (g_ID grp))) = None"
  then show "fst (changeGroupStatus gsvc token grp s) = Inl ErrStatusAlreadyAssigned"
    by (simp add: changeGroupStatus_def gs_authorize_eq)
next
  assume "tr_RetrieveByID (ts_clients tsvc) (c_ID thing) = Inr dbThing
    \<and> c_Status dbThing = c_Status thing"
  then show "\<not> list_ex is_ChangeStatus
      (calls s (snd (things_changeClientStatus tsvc token thing s)))"
    by (simp add: things_changeClientStatus_def ts_identify_def ts_authorize_eq calls_def
        split: option.splits sum.splits)
next
  assume "tr_RetrieveByID (ts_clients tsvc) (c_ID thing) = Inr dbThing
    \<and> c_Status dbThing = c_Status thing"
    "a_Identify (ts_auth tsvc) token = Inr userID
    \<and> denial (a_Authorize (ts_auth tsvc) (thing_req userID deletePermission (c_ID thing))) = None"
  then show "fst (things_changeClientStatus tsvc token thing s) = Inl ErrStatusAlreadyAssigned"
    by (simp add: things_changeClientStatus_def ts_identify_def ts_authorize_eq)
next
  assume "ur_RetrieveByID (us_clients usvc) (c_ID user) = Inr dbUser
    \<and> c_Status dbUser = c_Status user"
  then show "\<not> list_ex is_ChangeStatus
      (calls s (snd (users_changeClientStatus usvc token user s)))"
    by (simp add: users_changeClientStatus_def users_Identify_def isOwner_def calls_def
        split: option.splits sum.splits)
next
  assume "ur_RetrieveByID (us_clients usvc) (c_ID user) = Inr dbUser
    \<and> c_Status dbUser = c_Status user"
    "a_Identify (us_auth usvc) token = Inr userID
    \<and> (userID \<noteq> c_ID user \<longrightarrow> ur_IsOwner (us_clients usvc) (c_ID user) userID = None)"
  then show "fst (users_changeClientStatus usvc token user s) = Inl ErrStatusAlreadyAssigned"
    by (simp add: users_changeClientStatus_def users_Identify_def isOwner_def)
qed

theorem C5_same_status_is_conflict_witness:
  "gr_RetrieveByID (gs_groups demo_groups_service) ''g1'' = Inr (grp_of ''g1'' [])
   \<and> denial (a_Authorize (gs_auth demo_groups_service) (edit_req ''tok'' ''g1'')) = None
   \<and> fst (changeGroupStatus demo_groups_service ''tok'' (grp_of ''g1'' []) s0)
       = Inl ErrStatusAlreadyAssigned
   \<and> \<not> list_ex is_ChangeStatus
         (calls s0 (snd (changeGroupStatus demo_groups_service ''tok'' (grp_of ''g1'' []) s0)))
   \<and> tr_RetrieveByID (ts_clients demo_things_service) ''t1'' = Inr (Client_zero\<lparr>c_ID := ''t1''\<rparr>)
   \<and> a_Identify (ts_auth demo_things_service) ''tok'' = Inr ''u1''
   \<and> fst (things_changeClientStatus demo_things_service ''tok'' (Client_zero\<lparr>c_ID := ''t1''\<rparr>) s0)
       = Inl ErrStatusAlreadyAssigned
   \<and> \<not> list_ex is_ChangeStatus
         (calls s0 (snd (things_changeClientStatus demo_things_service ''tok''
                           (Client_zero\<lparr>c_ID := ''t1''\<rparr>) s0)))
   \<and> ur_RetrieveByID (us_clients demo_users_service) ''u2'' = Inr (demo_user ''u2'')
   \<and> fst (users_changeClientStatus demo_users_service ''tok'' (demo_user ''u2'') s0)
       = Inl ErrStatusAlreadyAssigned
   \<and> \<not> list_ex is_ChangeStatus
         (calls s0 (snd (users_changeClientStatus demo_users_service ''tok'' (demo_user ''u2'') s0)))"
proof -
  have g: "gr_RetrieveByID (gs_groups demo_groups_service) (g_ID (grp_of ''g1'' []))
      = Inr (grp_of ''g1'' [])"
    "denial (a_Authorize (gs_auth demo_groups_service) (edit_req ''tok'' (g_ID (grp_of ''g1'' []))))
      = None"
    "g_ID (grp_of ''g1'' []) = ''g1''"
    by (simp_all add: demo_defs grp_of_def Group_zero_def denial_def edit_req_def)
  have t: "tr_RetrieveByID (ts_clients demo_things_service) (c_ID (Client_zero\<lparr>c_ID := ''t1''\<rparr>))
      = Inr (Client_zero\<lparr>c_ID := ''t1''\<rparr>)"
    "a_Identify (ts_auth demo_things_service) ''tok'' = Inr ''u1''"
    "denial (a_Authorize (ts_auth demo_things_service)
        (thing_req ''u1'' deletePermission (c_ID (Client_zero\<lparr>c_ID := ''t1''\<rparr>)))) = None"
    "c_ID (Client_zero\<lparr>c_ID := ''t1''\<rparr>) = ''t1''"
    by (simp_all add: demo_defs denial_def thing_req_def)
  have u: "ur_RetrieveByID (us_clients demo_users_service) (c_ID (demo_user ''u2''))
      = Inr (demo_user ''u2'')"
    "a_Identify (us_auth demo_users_service) ''tok'' = Inr ''u1''"
    "ur_IsOwner (us_clients demo_users_service) (c_ID (demo_user ''u2'')) ''u1'' = None"
    "c_ID (demo_user ''u2'') = ''u2''"
    by (simp_all add: demo_defs)
  show ?thesis
    using C5_same_status_is_conflict [where gsvc = demo_groups_service
        and grp = "grp_of ''g1'' []" and dbGroup = "grp_of ''g1'' []" and token = "''tok''"
        and s = s0 and tsvc = demo_things_service and thing = "Client_zero\<lparr>c_ID := ''t1''\<rparr>"
        and dbThing = "Client_zero\<lparr>c_ID := ''t1''\<rparr>" and userID = "''u1''"
        and usvc = demo_users_service and user = "demo_user ''u2''"
        and dbUser = "demo_user ''u2''"] g t u
    by simp
qed

subsection \<open>Identify: the write-through cache\<close>

text \<open>
  Claim C7.  For a key that is not cached, whose client the repository finds, with the
  cache reachable: the first \<open>Identify\<close> makes one cache lookup, one
  \<open>RetrieveBySecret\<close> and one cache write, in this order, and returns the id of the
  client; a second \<open>Identify\<close> with the same key, run in the state the first one left,
  makes the cache lookup only (no storage lookup) and returns the same id.
\<close>

theorem C7_identify_caches:
  "cache s key = None
   \<and> tr_RetrieveBySecret (ts_clients svc) key = Inr client
   \<and> ts_clientCache svc (CacheSave key (c_ID client)) = None
   \<and> ts_clientCache svc (CacheID key) = None \<longrightarrow>
     fst (things_Identify svc key s) = Inr (c_ID client)
   \<and> calls s (snd (things_Identify svc key s))
       = [CacheID key, ClientsRetrieveBySecret key, CacheSave key (c_ID client)]
   \<and> fst (things_Identify svc key (snd (things_Identify svc key s))) = Inr (c_ID client)
   \<and> calls (snd (things_Identify svc key s))
        (snd (things_Identify svc key (snd (things_Identify svc key s))))
       = [CacheID key]"
  by (simp add: things_Identify_def clientCache_ID_def clientCache_Save_def calls_def)

theorem C7_identify_caches_witness:
  "cache s0 ''key-1'' = None
   \<and> tr_RetrieveBySecret (ts_clients demo_things_service) ''key-1''
       = Inr (Client_zero\<lparr>c_ID := ''thing-1''\<rparr>)
   \<and> fst (things_Identify demo_things_service ''key-1'' s0) = Inr ''thing-1''
   \<and> calls s0 (snd (things_Identify demo_things_service ''key-1'' s0))
       = [CacheID ''key-1'', ClientsRetrieveBySecret ''key-1'', CacheSave ''key-1'' ''thing-1'']
   \<and> fst (things_Identify demo_things_service ''key-1''
             (snd (things_Identify demo_things_service ''key-1'' s0))) = Inr ''thing-1''
   \<and> calls (snd (things_Identify demo_things_service ''key-1'' s0))
        (snd (things_Identify demo_things_service ''key-1''
                (snd (things_Identify demo_things_service ''key-1'' s0))))
       = [CacheID ''key-1'']"
  using C7_identify_caches [where s = s0 and key = "''key-1''" and svc = demo_things_service
      and client = "Client_zero\<lparr>c_ID := ''thing-1''\<rparr>"]
  by (simp add: demo_defs)

subsection \<open>The secret update of the things service\<close>

text \<open>
  Claim C8.  Every authorization request that \<open>UpdateClientSecret\<close> of the things service
  makes is the edit request with the identified caller as its subject and as its
  object: the thing id given to the call does not occur in it.  When the token is
  identified the request is made, right after the identification.
\<close>

theorem C8_secret_update_authorizes_caller_on_itself:
  "(\<forall>req. AuthAuthorize req
            \<in> set (calls s (snd (things_UpdateClientSecret svc token thingID key s)))
      \<longrightarrow> a_Identify (ts_auth svc) token = Inr (Subject req) \<and> Object req = Subject req
        \<and> req = thing_req (Subject req) editPermission (Subject req))
   \<and> (a_Identify (ts_auth svc) token = Inr userID \<longrightarrow>
        take 2 (calls s (snd (things_UpdateClientSecret svc token thingID key s)))
          = [AuthIdentify token, AuthAuthorize (thing_req userID editPermission userID)])"
  by (auto simp: things_UpdateClientSecret_def ts_identify_def ts_authorize_eq calls_def Let_def
      thing_req_def split: sum.splits option.splits)

theorem C8_secret_update_authorizes_caller_on_itself_witness:
  "a_Identify (ts_auth demo_things_service) ''tok'' = Inr ''u1''
   \<and> AuthAuthorize (thing_req ''u1'' editPermission ''u1'')
       \<in> set (calls s0 (snd (things_UpdateClientSecret demo_things_service ''tok'' ''thing-9''
                               ''new-key'' s0)))
   \<and> Object (thing_req ''u1'' editPermission ''u1'') = ''u1''
   \<and> Object (thing_req ''u1'' editPermission ''u1'') \<noteq> ''thing-9''"
proof -
  let ?cs = "calls s0 (snd (things_UpdateClientSecret demo_things_service ''tok'' ''thing-9''
                               ''new-key'' s0))"
  have i: "a_Identify (ts_auth demo_things_service) ''tok'' = Inr ''u1''"
    by (simp add: demo_defs)
  from C8_secret_update_authorizes_caller_on_itself [where svc = demo_things_service
      and token = "''tok''" and userID = "''u1''" and thingID = "''thing-9''"
      and key = "''new-key''" and s = s0] i
  have all: "\<forall>req. AuthAuthorize req \<in> set ?cs \<longrightarrow> Object req = Subject req"
    and t: "take 2 ?cs = [AuthIdentify ''tok'', AuthAuthorize (thing_req ''u1'' editPermission ''u1'')]"
    by blast+
  have "AuthAuthorize (thing_req ''u1'' editPermission ''u1'') \<in> set (take 2 ?cs)"
    by (simp add: t)
  then have m: "AuthAuthorize (thing_req ''u1'' editPermission ''u1'') \<in> set ?cs"
    by (rule in_set_takeD)
  with all have "Object (thing_req ''u1'' editPermission ''u1'')
      = Subject (thing_req ''u1'' editPermission ''u1'')" by blast
  then show ?thesis using i m by (simp add: thing_req_def)
qed

subsection \<open>ViewClient and ViewProfile\<close>

text \<open>
  Claim C10.  A client that \<open>ViewClient\<close> or \<open>ViewProfile\<close> of the users service returns
  has the empty string as its secret, whatever the repository returned.
\<close>

theorem C10_view_hides_secret:
  "(fst (ViewClient svc token clientID s) = Inr client \<longrightarrow> Secret (c_Credentials client) = [])
   \<and> (fst (ViewProfile svc token s) = Inr client' \<longrightarrow> Secret (c_Credentials client') = [])"
  by (auto simp: ViewClient_def ViewProfile_def users_Identify_def isOwner_def
      split: sum.splits option.splits if_splits)

theorem C10_view_hides_secret_witness:
  "ur_RetrieveByID (us_clients demo_users_service) ''u1'' = Inr (demo_user ''u1'')
   \<and> Secret (c_Credentials (demo_user ''u1'')) = ''hash:old-secret''
   \<and> fst (ViewClient demo_users_service ''tok'' ''u1'' s0)
       = Inr ((demo_user ''u1'')\<lparr>c_Credentials := \<lparr>Identity = ''u1@example.com'', Secret = []\<rparr>\<rparr>)
   \<and> fst (ViewProfile demo_users_service ''tok'' s0)
       = Inr ((demo_user ''u1'')\<lparr>c_Credentials := \<lparr>Identity = ''u1@example.com'', Secret = []\<rparr>\<rparr>)
   \<and> Secret (c_Credentials
        ((demo_user ''u1'')\<lparr>c_Credentials := \<lparr>Identity = ''u1@example.com'', Secret = []\<rparr>\<rparr>)) = []"
  using C10_view_hides_secret [where svc = demo_users_service and token = "''tok''"
      and clientID = "''u1''" and s = s0
      and client = "(demo_user ''u1'')\<lparr>c_Credentials := \<lparr>Identity = ''u1@example.com'', Secret = []\<rparr>\<rparr>"
      and client' = "(demo_user ''u1'')\<lparr>c_Credentials := \<lparr>Identity = ''u1@example.com'', Secret = []\<rparr>\<rparr>"]
  by (simp add: ViewClient_def ViewProfile_def users_Identify_def demo_defs Client_zero_def)


subsection \<open>RegisterClient and the bearer token\<close>

lemma RegisterClient_as_eq:
  "RegisterClient svc token cli s =
     RegisterClient_as svc (owner_of (a_Identify (us_auth svc) token)) cli (log (AuthIdentify token) s)"
  by (cases "a_Identify (us_auth svc) token")
    (simp_all only: RegisterClient_def RegisterClient_as_def users_Identify_def owner_of_def
      sum.case prod.case Let_def)

lemma with_Identify_fields:
  "us_idProvider (with_Identify svc f) = us_idProvider svc"
  "us_hasher (with_Identify svc f) = us_hasher svc"
  "us_clock (with_Identify svc f) = us_clock svc"
  "us_clients (with_Identify svc f) = us_clients svc"
  by (simp_all add: with_Identify_def)

lemma RegisterClient_as_with_Identify:
  "RegisterClient_as (with_Identify svc f) ownerID cli s = RegisterClient_as svc ownerID cli s"
  unfolding RegisterClient_as_def hasher_Hash_def with_Identify_fields by (rule refl)

lemma RegisterClient_as_owner_set:
  "c_Owner cli \<noteq> [] \<Longrightarrow> RegisterClient_as svc ownerID cli s = RegisterClient_as svc [] cli s"
  by (simp add: RegisterClient_as_def Let_def)

lemma RegisterClient_as_saves:
  "UsersSave c \<in> set (calls s (snd (RegisterClient_as svc ownerID cli
      (log (AuthIdentify token) s)))) \<Longrightarrow>
   c_Owner c = (if c_Owner cli = [] then ownerID else c_Owner cli)
   \<and> h_Hash (us_hasher svc) (Secret (c_Credentials cli)) = Inr (Secret (c_Credentials c))"
  by (auto simp: RegisterClient_as_def idProvider_ID_def hasher_Hash_def calls_def Let_def
      split: sum.splits if_splits)

lemma RegisterClient_outcomes:
  "(let ownerID = owner_of (a_Identify (us_auth svc) token);
        s2 = log IDProviderID ((log (AuthIdentify token) s)\<lparr>issued := Suc (issued s)\<rparr>);
        s3 = log (HasherHash (Secret (c_Credentials cli))) s2;
        cli1 = (if c_Owner cli = [] \<and> ownerID \<noteq> [] then cli\<lparr>c_Owner := ownerID\<rparr> else cli);
        cli3 = cli1\<lparr>c_Credentials := (c_Credentials cli)\<lparr>Secret := hash\<rparr>,
                    c_ID := clientID, c_CreatedAt := time_Now (us_clock svc) s3\<rparr>
    in (us_idProvider svc (issued s) = Inl err \<longrightarrow>
          RegisterClient svc token cli s = (Inl err, s2))
     \<and> (us_idProvider svc (issued s) = Inr clientID \<longrightarrow>
          (Secret (c_Credentials cli) = [] \<longrightarrow>
             RegisterClient svc token cli s = (Inl ErrMissingSecret, s2))
        \<and> (Secret (c_Credentials cli) \<noteq> []
             \<and> h_Hash (us_hasher svc) (Secret (c_Credentials cli)) = Inl err \<longrightarrow>
             RegisterClient svc token cli s = (Inl (Wrap ErrMalformedEntity err), s3))
        \<and> (Secret (c_Credentials cli) \<noteq> []
             \<and> h_Hash (us_hasher svc) (Secret (c_Credentials cli)) = Inr hash \<longrightarrow>
             (c_Status cli \<noteq> DisabledStatus \<and> c_Status cli \<noteq> EnabledStatus \<longrightarrow>
                RegisterClient svc token cli s = (Inl ErrInvalidStatus, s3))
           \<and> ((c_Status cli = DisabledStatus \<or> c_Status cli = EnabledStatus)
                \<and> c_Role cli \<noteq> UserRole \<and> c_Role cli \<noteq> AdminRole \<longrightarrow>
                RegisterClient svc token cli s = (Inl ErrInvalidRole, s3))
           \<and> ((c_Status cli = DisabledStatus \<or> c_Status cli = EnabledStatus)
                \<and> (c_Role cli = UserRole \<or> c_Role cli = AdminRole) \<longrightarrow>
                RegisterClient svc token cli s
                  = (ur_Save (us_clients svc) cli3, log (UsersSave cli3) s3)))))"
  unfolding Let_def
proof (intro conjI impI)
  assume "us_idProvider svc (issued s) = Inl err"
  then show "RegisterClient svc token cli s
     = (Inl err, log IDProviderID ((log (AuthIdentify token) s)\<lparr>issued := Suc (issued s)\<rparr>))"
    by (simp add: RegisterClient_as_eq RegisterClient_as_def idProvider_ID_def)
next
  assume "us_idProvider svc (issued s) = Inr clientID" "Secret (c_Credentials cli) = []"
  then show "RegisterClient svc token cli s
     = (Inl ErrMissingSecret,
        log IDProviderID ((log (AuthIdentify token) s)\<lparr>issued := Suc (issued s)\<rparr>))"
    by (simp add: RegisterClient_as_eq RegisterClient_as_def idProvider_ID_def Let_def)
next
  assume "us_idProvider svc (issued s) = Inr clientID"
    "Secret (c_Credentials cli) \<noteq> []
       \<and> h_Hash (us_hasher svc) (Secret (c_Credentials cli)) = Inl err"
  then show "RegisterClient svc token cli s
     = (Inl (Wrap ErrMalformedEntity err),
        log (HasherHash (Secret (c_Credentials cli)))
          (log IDProviderID ((log (AuthIdentify token) s)\<lparr>issued := Suc (issued s)\<rparr>)))"
    by (simp add: RegisterClient_as_eq RegisterClient_as_def idProvider_ID_def hasher_Hash_def
        Let_def)
next
  assume "us_idProvider svc (issued s) = Inr clientID"
    "Secret (c_Credentials cli) \<noteq> []
       \<and> h_Hash (us_hasher svc) (Secret (c_Credentials cli)) = Inr hash"
    "c_Status cli \<noteq> DisabledStatus \<and> c_Status cli \<noteq> EnabledStatus"
  then show "RegisterClient svc token cli s
     = (Inl ErrInvalidStatus,
        log (HasherHash (Secret (c_Credentials cli)))
          (log IDProviderID ((log (AuthIdentify token) s)\<lparr>issued := Suc (issued s)\<rparr>)))"
    by (simp add: RegisterClient_as_eq RegisterClient_as_def idProvider_ID_def hasher_Hash_def
        Let_def)
next
  assume "us_idProvider svc (issued s) = Inr clientID"
    "Secret (c_Credentials cli) \<noteq> []
       \<and> h_Hash (us_hasher svc) (Secret (c_Credentials cli)) = Inr hash"
    "(c_Status cli = DisabledStatus \<or> c_Status cli = EnabledStatus)
       \<and> c_Role cli \<noteq> UserRole \<and> c_Role cli \<noteq> AdminRole"
  then show "RegisterClient svc token cli s
     = (Inl ErrInvalidRole,
        log (HasherHash (Secret (c_Credentials cli)))
          (log IDProviderID ((log (AuthIdentify token) s)\<lparr>issued := Suc (issued s)\<rparr>)))"
    by (elim conjE disjE)
      (simp_all add: RegisterClient_as_eq RegisterClient_as_def idProvider_ID_def
        hasher_Hash_def Let_def)
next
  let ?s3 = "log (HasherHash (Secret (c_Credentials cli)))
          (log IDProviderID ((log (AuthIdentify token) s)\<lparr>issued := Suc (issued s)\<rparr>))"
  let ?cli3 = "(if c_Owner cli = [] \<and> owner_of (a_Identify (us_auth svc) token) \<noteq> []
         then cli\<lparr>c_Owner := owner_of (a_Identify (us_auth svc) token)\<rparr> else cli)
        \<lparr>c_Credentials := (c_Credentials cli)\<lparr>Secret := hash\<rparr>, c_ID := clientID,
          c_CreatedAt := time_Now (us_clock svc) ?s3\<rparr>"
  assume "us_idProvider svc (issued s) = Inr clientID"
    "Secret (c_Credentials cli) \<noteq> []
       \<and> h_Hash (us_hasher svc) (Secret (c_Credentials cli)) = Inr hash"
    "(c_Status cli = DisabledStatus \<or> c_Status cli = EnabledStatus)
       \<and> (c_Role cli = UserRole \<or> c_Role cli = AdminRole)"
  then show "RegisterClient svc token cli s
     = (ur_Save (us_clients svc) ?cli3, log (UsersSave ?cli3) ?s3)"
    by (elim conjE disjE)
      (simp_all add: RegisterClient_as_eq RegisterClient_as_def idProvider_ID_def
        hasher_Hash_def Let_def split: sum.splits)
qed

lemma RegisterClient_saved_owner:
  assumes "UsersSave c \<in> set (calls s (snd (RegisterClient svc token cli s)))"
  shows "c_Owner c = (if c_Owner cli = [] then owner_of (a_Identify (us_auth svc) token)
                      else c_Owner cli)"
  using assms RegisterClient_as_saves [of c s svc _ cli token]
  by (simp add: RegisterClient_as_eq)

lemma RegisterClient_identify_only:
  assumes "owner_of (f token) = owner_of (a_Identify (us_auth svc) token) \<or> c_Owner cli \<noteq> []"
  shows "fst (RegisterClient (with_Identify svc f) token cli s)
          = fst (RegisterClient svc token cli s)"
proof -
  have "a_Identify (us_auth (with_Identify svc f)) token = f token"
    by (simp add: with_Identify_def)
  with assms show ?thesis
    using RegisterClient_as_owner_set [of cli svc "owner_of (f token)" "log (AuthIdentify token) s"]
      RegisterClient_as_owner_set [of cli svc "owner_of (a_Identify (us_auth svc) token)"
        "log (AuthIdentify token) s"]
    by (auto simp: RegisterClient_as_eq RegisterClient_as_with_Identify)
qed

text \<open>
  Claim C9.  \<open>RegisterClient\<close> drops the error of \<open>Identify\<close>: whatever the policy engine
  answers for the token, an error included, the run goes on, and its outcome is one of
  six, none of which is the error of \<open>Identify\<close>.  The id provider fails and its error is
  returned; the secret is empty and the missing-secret error is returned; the hasher
  fails and its error is returned wrapped; the status is invalid; the role is invalid; or
  the client is handed to \<open>Save\<close>, with the hashed secret, the fresh id and the creation
  time, and its result is returned.  The saved client has the owner that was given, or,
  when none was given and the token resolved to a non-empty identity, that identity.  The
  result depends on the answer of \<open>Identify\<close> through that identity only, and not at all
  when an owner was given.
\<close>

theorem C9_register_ignores_identify_failure:
  "(let ownerID = owner_of (a_Identify (us_auth svc) token);
        s2 = log IDProviderID ((log (AuthIdentify token) s)\<lparr>issued := Suc (issued s)\<rparr>);
        s3 = log (HasherHash (Secret (c_Credentials cli))) s2;
        cli1 = (if c_Owner cli = [] \<and> ownerID \<noteq> [] then cli\<lparr>c_Owner := ownerID\<rparr> else cli);
        cli3 = cli1\<lparr>c_Credentials := (c_Credentials cli)\<lparr>Secret := hash\<rparr>,
                    c_ID := clientID, c_CreatedAt := time_Now (us_clock svc) s3\<rparr>
    in (us_idProvider svc (issued s) = Inl err \<longrightarrow>
          RegisterClient svc token cli s = (Inl err, s2))
     \<and> (us_idProvider svc (issued s) = Inr clientID \<longrightarrow>
          (Secret (c_Credentials cli) = [] \<longrightarrow>
             RegisterClient svc token cli s = (Inl ErrMissingSecret, s2))
        \<and> (Secret (c_Credentials cli) \<noteq> []
             \<and> h_Hash (us_hasher svc) (Secret (c_Credentials cli)) = Inl err \<longrightarrow>
             RegisterClient svc token cli s = (Inl (Wrap ErrMalformedEntity err), s3))
        \<and> (Secret (c_Credentials cli) \<noteq> []
             \<and> h_Hash (us_hasher svc) (Secret (c_Credentials cli)) = Inr hash \<longrightarrow>
             (c_Status cli \<noteq> DisabledStatus \<and> c_Status cli \<noteq> EnabledStatus \<longrightarrow>
                RegisterClient svc token cli s = (Inl ErrInvalidStatus, s3))
           \<and> ((c_Status cli = DisabledStatus \<or> c_Status cli = EnabledStatus)
                \<and> c_Role cli \<noteq> UserRole \<and> c_Role cli \<noteq> AdminRole \<longrightarrow>
                RegisterClient svc token cli s = (Inl ErrInvalidRole, s3))
           \<and> ((c_Status cli = DisabledStatus \<or> c_Status cli = EnabledStatus)
                \<and> (c_Role cli = UserRole \<or> c_Role cli = AdminRole) \<longrightarrow>
                RegisterClient svc token cli s
                  = (ur_Save (us_clients svc) cli3, log (UsersSave cli3) s3)))))
   \<and> (\<forall>c. UsersSave c \<in> set (calls s (snd (RegisterClient svc token cli s))) \<longrightarrow>
          c_Owner c = (if c_Owner cli = [] then owner_of (a_Identify (us_auth svc) token)
                       else c_Owner cli))
   \<and> (owner_of (f token) = owner_of (a_Identify (us_auth svc) token) \<or> c_Owner cli \<noteq> [] \<longrightarrow>
        fst (RegisterClient (with_Identify svc f) token cli s)
          = fst (RegisterClient svc token cli s))"
  using RegisterClient_outcomes [where svc = svc and token = token and s = s and cli = cli
      and hash = hash and clientID = clientID and err = err]
    RegisterClient_saved_owner [where s = s and svc = svc and token = token and cli = cli]
    RegisterClient_identify_only [where f = f and token = token and svc = svc and cli = cli
      and s = s]
  by blast

theorem C9_register_ignores_identify_failure_witness:
  "a_Identify (us_auth demo_users_service) ''bad-token'' = Inl ErrAuthentication
   \<and> fst (RegisterClient demo_users_service ''bad-token'' new_user s0)
       = Inr (new_user\<lparr>c_Credentials := \<lparr>Identity = ''u2@example.com'', Secret = ''hash:password1''\<rparr>,
                       c_ID := ''i'', c_CreatedAt := 3\<rparr>)
   \<and> calls s0 (snd (RegisterClient demo_users_service ''bad-token'' new_user s0))
       = [AuthIdentify ''bad-token'', IDProviderID, HasherHash ''password1'',
          UsersSave (new_user\<lparr>c_Credentials :=
                                 \<lparr>Identity = ''u2@example.com'', Secret = ''hash:password1''\<rparr>,
                               c_ID := ''i'', c_CreatedAt := 3\<rparr>)]
   \<and> a_Identify (us_auth demo_users_service) ''tok'' = Inr ''u1''
   \<and> c_Owner new_user = []
   \<and> fst (RegisterClient demo_users_service ''tok'' new_user s0) = Inr saved_user
   \<and> calls s0 (snd (RegisterClient demo_users_service ''tok'' new_user s0))
       = [AuthIdentify ''tok'', IDProviderID, HasherHash ''password1'', UsersSave saved_user]
   \<and> c_Owner saved_user = ''u1''
   \<and> fst (RegisterClient demo_users_service ''bad-token'' Client_zero s0) = Inl ErrMissingSecret
   \<and> fst (RegisterClient (with_Identify demo_users_service (\<lambda>_. Inr [])) ''bad-token'' new_user s0)
       = fst (RegisterClient demo_users_service ''bad-token'' new_user s0)"
proof -
  have h: "a_Identify (us_auth demo_users_service) ''bad-token'' = Inl ErrAuthentication"
    "a_Identify (us_auth demo_users_service) ''tok'' = Inr ''u1''"
    "us_idProvider demo_users_service (issued s0) = Inr ''i''"
    "Secret (c_Credentials new_user) = ''password1''"
    "Secret (c_Credentials Client_zero) = []"
    "h_Hash (us_hasher demo_users_service) ''password1'' = Inr ''hash:password1''"
    "c_Status new_user = EnabledStatus" "c_Role new_user = UserRole"
    "c_Owner new_user = []"
    "owner_of (Inr [] :: error + string) = []" "owner_of (Inl ErrAuthentication) = []"
    "owner_of (Inr ''u1'' :: error + string) = ''u1''"
    by (simp_all add: demo_defs new_user_def Client_zero_def owner_of_def)
  have c: "c_Credentials new_user\<lparr>Secret := ''hash:password1''\<rparr>
      = \<lparr>Identity = ''u2@example.com'', Secret = ''hash:password1''\<rparr>"
    "us_clients demo_users_service = demo_users" "ur_Save demo_users = Inr"
    "time_Now (us_clock demo_users_service)
       (log (HasherHash ''password1'')
         (log IDProviderID ((log (AuthIdentify ''bad-token'') s0)\<lparr>issued := Suc (issued s0)\<rparr>))) = 3"
    "time_Now (us_clock demo_users_service)
       (log (HasherHash ''password1'')
         (log IDProviderID ((log (AuthIdentify ''tok'') s0)\<lparr>issued := Suc (issued s0)\<rparr>))) = 3"
    "trace s0 = []"
    by (simp_all add: demo_defs new_user_def Client_zero_def time_Now_def fun_eq_iff)
  have a: "fst (RegisterClient demo_users_service ''bad-token'' new_user s0)
       = Inr (new_user\<lparr>c_Credentials := \<lparr>Identity = ''u2@example.com'', Secret = ''hash:password1''\<rparr>,
                       c_ID := ''i'', c_CreatedAt := 3\<rparr>)
     \<and> calls s0 (snd (RegisterClient demo_users_service ''bad-token'' new_user s0))
       = [AuthIdentify ''bad-token'', IDProviderID, HasherHash ''password1'',
          UsersSave (new_user\<lparr>c_Credentials :=
                                 \<lparr>Identity = ''u2@example.com'', Secret = ''hash:password1''\<rparr>,
                               c_ID := ''i'', c_CreatedAt := 3\<rparr>)]
     \<and> fst (RegisterClient (with_Identify demo_users_service (\<lambda>_. Inr [])) ''bad-token'' new_user s0)
       = fst (RegisterClient demo_users_service ''bad-token'' new_user s0)"
    using C9_register_ignores_identify_failure [where svc = demo_users_service
        and token = "''bad-token''" and s = s0 and clientID = "''i''"
        and cli = new_user and hash = "''hash:password1''" and f = "\<lambda>_. Inr []"]
    by (simp add: h c calls_def Let_def)
  have b: "fst (RegisterClient demo_users_service ''tok'' new_user s0) = Inr saved_user
     \<and> calls s0 (snd (RegisterClient demo_users_service ''tok'' new_user s0))
       = [AuthIdentify ''tok'', IDProviderID, HasherHash ''password1'', UsersSave saved_user]"
    using C9_register_ignores_identify_failure [where svc = demo_users_service
        and token = "''tok''" and s = s0 and clientID = "''i''"
        and cli = new_user and hash = "''hash:password1''" and f = "\<lambda>_. Inr []"]
    by (simp add: h c calls_def Let_def saved_user_def)
  have m: "fst (RegisterClient demo_users_service ''bad-token'' Client_zero s0)
       = Inl ErrMissingSecret"
    using C9_register_ignores_identify_failure [where svc = demo_users_service
        and token = "''bad-token''" and s = s0 and clientID = "''i''"
        and cli = Client_zero and f = "\<lambda>_. Inr []"]
    by (simp add: h Let_def)
  have o: "c_Owner saved_user = ''u1''" by (simp add: saved_user_def)
  from a b m o h(1,2,9) show ?thesis by blast
qed

subsection \<open>Which secret reaches the repository\<close>

lemma only_ids_refl [simp]: "only_ids s s"
  by (simp add: only_ids_def)

lemma only_ids_trans: "only_ids s s1 \<Longrightarrow> only_ids s1 s2 \<Longrightarrow> only_ids s s2"
  by (auto simp: only_ids_def)

lemma only_ids_idProvider [simp]: "only_ids s (snd (idProvider_ID idp s))"
  by (simp add: only_ids_def idProvider_ID_def)

lemma CreateThings_loop_step:
  "CreateThings_loop svc userID (cli # clis) acc s =
     (case CreateThings_step svc userID cli s of
        (Inl e, s1) \<Rightarrow> (Inl e, s1)
      | (Inr c, s1) \<Rightarrow> CreateThings_loop svc userID clis (acc @ [c]) s1)"
  by (simp add: CreateThings_step_def Let_def split: sum.splits prod.splits)

lemma CreateThings_step_kept: "CreateThings_step svc userID cli s = (Inr c, s1) \<Longrightarrow> kept cli c"
  by (auto simp: CreateThings_step_def kept_def Let_def split: sum.splits prod.splits if_splits)

lemma CreateThings_step_only_ids: "only_ids s (snd (CreateThings_step svc userID cli s))"
proof -
  obtain r1 s1 where a: "idProvider_ID (ts_idProvider svc) s = (r1, s1)"
    by (cases "idProvider_ID (ts_idProvider svc) s")
  have o1: "only_ids s s1" using only_ids_idProvider [of s "ts_idProvider svc"] a by simp
  obtain r2 s2 where b: "idProvider_ID (ts_idProvider svc) s1 = (r2, s2)"
    by (cases "idProvider_ID (ts_idProvider svc) s1")
  have o2: "only_ids s1 s2" using only_ids_idProvider [of s1 "ts_idProvider svc"] b by simp
  have o12: "only_ids s s2" using o1 o2 by (rule only_ids_trans)
  show ?thesis
    using a b o1 o12
    by (auto simp: CreateThings_step_def Let_def split: sum.splits prod.splits)
qed

declare CreateThings_loop.simps(2) [simp del]

lemma CreateThings_loop_only_ids: "only_ids s (snd (CreateThings_loop svc userID clis acc s))"
proof (induction clis arbitrary: acc s)
  case Nil
  show ?case by simp
next
  case (Cons cli clis)
  obtain r s1 where st: "CreateThings_step svc userID cli s = (r, s1)"
    by (cases "CreateThings_step svc userID cli s")
  have o: "only_ids s s1" using CreateThings_step_only_ids [of s svc userID cli] st by simp
  show ?case
  proof (cases r)
    case (Inl e)
    with st o show ?thesis by (simp add: CreateThings_loop_step)
  next
    case (Inr c)
    with st only_ids_trans [OF o Cons.IH [of s1 "acc @ [c]"]] show ?thesis
      by (simp add: CreateThings_loop_step)
  qed
qed

lemma CreateThings_loop_kept:
  "CreateThings_loop svc userID clis acc s = (Inr out, s') \<Longrightarrow>
   \<exists>new. out = acc @ new \<and> list_all2 kept clis new"
proof (induction clis arbitrary: acc s)
  case Nil
  then show ?case by simp
next
  case (Cons cli clis)
  obtain r s1 where st: "CreateThings_step svc userID cli s = (r, s1)"
    by (cases "CreateThings_step svc userID cli s")
  with Cons.prems obtain c where r: "r = Inr c"
    and e: "CreateThings_loop svc userID clis (acc @ [c]) s1 = (Inr out, s')"
    by (cases r) (simp_all add: CreateThings_loop_step)
  from st r have k: "kept cli c" by (simp add: CreateThings_step_kept)
  from Cons.IH [OF e] obtain new where "out = (acc @ [c]) @ new" "list_all2 kept clis new"
    by blast
  with k show ?case by (intro exI [of _ "c # new"]) simp
qed

lemma CreateThings_saves:
  assumes "ThingsSave cs \<in> set (calls s (snd (CreateThings svc token clis s)))"
  shows "list_all2 kept clis cs"
proof (cases "a_Identify (ts_auth svc) token")
  case (Inl e)
  with assms show ?thesis by (simp add: CreateThings_def calls_def)
next
  case (Inr userID)
  let ?s1 = "log (AuthIdentify token) s"
  obtain r s2 where l: "CreateThings_loop svc userID clis [] ?s1 = (r, s2)"
    by (cases "CreateThings_loop svc userID clis [] ?s1")
  from CreateThings_loop_only_ids [of ?s1 svc userID clis "[]"] l obtain post
    where p: "trace s2 = trace ?s1 @ post" "set post \<subseteq> {IDProviderID}"
    by (auto simp: only_ids_def)
  show ?thesis
  proof (cases r)
    case (Inl e)
    with assms Inr l p show ?thesis by (auto simp: CreateThings_def calls_def)
  next
    case out: (Inr clients)
    with assms Inr l p have "cs = clients" by (auto simp: CreateThings_def calls_def)
    with CreateThings_loop_kept [of svc userID clis "[]" ?s1 clients s2] l out show ?thesis by simp
  qed
qed

lemma ResetSecret_saves:
  "ClientsUpdateSecret c \<in> set (calls s (snd (ResetSecret usvc token secret s))) \<Longrightarrow>
     h_Hash (us_hasher usvc) secret = Inr (Secret (c_Credentials c))"
  by (auto simp: ResetSecret_def users_Identify_def hasher_Hash_def calls_def Let_def
      Client_zero_def split: sum.splits if_splits)

lemma IssueToken_trace:
  "\<exists>post. trace (snd (IssueToken svc identity secret s)) = trace s @ post
     \<and> (\<forall>c. ClientsUpdateSecret c \<notin> set post)"
  by (auto simp: IssueToken_def Let_def split: sum.splits option.splits)

lemma users_UpdateClientSecret_saves:
  assumes "ClientsUpdateSecret c
     \<in> set (calls s (snd (users_UpdateClientSecret usvc token oldSecret secret s)))"
  shows "h_Hash (us_hasher usvc) secret = Inr (Secret (c_Credentials c))"
proof (cases "a_Identify (us_auth usvc) token")
  case (Inl e)
  with assms show ?thesis by (simp add: users_UpdateClientSecret_def users_Identify_def calls_def)
next
  case uid: (Inr uid)
  show ?thesis
  proof (cases "ur_RetrieveByID (us_clients usvc) uid")
    case (Inl e)
    with assms uid show ?thesis
      by (simp add: users_UpdateClientSecret_def users_Identify_def calls_def split: if_splits)
  next
    case db: (Inr dbClient)
    let ?s2 = "log (ClientsRetrieveByID uid) (log (AuthIdentify token) s)"
    obtain r s3 where it: "IssueToken usvc (Identity (c_Credentials dbClient)) oldSecret ?s2 = (r, s3)"
      by (cases "IssueToken usvc (Identity (c_Credentials dbClient)) oldSecret ?s2")
    from IssueToken_trace [of usvc "Identity (c_Credentials dbClient)" oldSecret ?s2] it
    obtain post where p: "trace s3 = trace ?s2 @ post" "\<forall>c. ClientsUpdateSecret c \<notin> set post"
      by auto
    from assms uid db it p show ?thesis
      by (auto simp: users_UpdateClientSecret_def users_Identify_def hasher_Hash_def calls_def
          Let_def split: if_splits sum.splits)
  qed
qed

lemma things_UpdateClientSecret_saves:
  "ClientsUpdateSecret c
     \<in> set (calls s (snd (things_UpdateClientSecret tsvc token thingID key s))) \<Longrightarrow>
   Secret (c_Credentials c) = key"
  by (auto simp: things_UpdateClientSecret_def ts_identify_def ts_authorize_eq calls_def Let_def
      Client_zero_def split: sum.splits option.splits)

text \<open>
  Claim C3, as the code has it.  In the users service the secret of every client handed
  to \<open>Save\<close> by \<open>RegisterClient\<close>, and to \<open>UpdateSecret\<close> by \<open>ResetSecret\<close> and
  \<open>UpdateClientSecret\<close>, is the hasher's output for the supplied secret; so it is not
  the supplied secret itself whenever the hasher never returns its input.  The things
  service has no hasher: \<open>CreateThings\<close> hands every client to \<open>Save\<close> with the secret
  that was supplied with it (when one was supplied), and \<open>UpdateClientSecret\<close> hands the
  supplied key to \<open>UpdateSecret\<close> as it is.
\<close>

theorem C3_users_hash_things_keep:
  "(\<forall>c. UsersSave c \<in> set (calls s (snd (RegisterClient usvc token cli s))) \<longrightarrow>
        h_Hash (us_hasher usvc) (Secret (c_Credentials cli)) = Inr (Secret (c_Credentials c)))
   \<and> (\<forall>c. ClientsUpdateSecret c \<in> set (calls s (snd (ResetSecret usvc token secret s))) \<longrightarrow>
        h_Hash (us_hasher usvc) secret = Inr (Secret (c_Credentials c)))
   \<and> (\<forall>c. ClientsUpdateSecret c
             \<in> set (calls s (snd (users_UpdateClientSecret usvc token oldSecret secret s))) \<longrightarrow>
        h_Hash (us_hasher usvc) secret = Inr (Secret (c_Credentials c)))
   \<and> ((\<forall>x. h_Hash (us_hasher usvc) x \<noteq> Inr x) \<longrightarrow>
        (\<forall>c. UsersSave c \<in> set (calls s (snd (RegisterClient usvc token cli s))) \<longrightarrow>
           Secret (c_Credentials c) \<noteq> Secret (c_Credentials cli))
      \<and> (\<forall>c. ClientsUpdateSecret c \<in> set (calls s (snd (ResetSecret usvc token secret s))) \<longrightarrow>
           Secret (c_Credentials c) \<noteq> secret)
      \<and> (\<forall>c. ClientsUpdateSecret c
             \<in> set (calls s (snd (users_UpdateClientSecret usvc token oldSecret secret s))) \<longrightarrow>
           Secret (c_Credentials c) \<noteq> secret))
   \<and> (\<forall>cs. ThingsSave cs \<in> set (calls s (snd (CreateThings tsvc token clis s))) \<longrightarrow>
        list_all2 kept clis cs)
   \<and> (\<forall>c. ClientsUpdateSecret c
             \<in> set (calls s (snd (things_UpdateClientSecret tsvc token thingID key s))) \<longrightarrow>
        Secret (c_Credentials c) = key)"
proof -
  have r: "\<forall>c. UsersSave c \<in> set (calls s (snd (RegisterClient usvc token cli s))) \<longrightarrow>
        h_Hash (us_hasher usvc) (Secret (c_Credentials cli)) = Inr (Secret (c_Credentials c))"
    using RegisterClient_as_saves [of _ s usvc _ cli token] by (simp add: RegisterClient_as_eq)
  have t: "\<forall>c. ClientsUpdateSecret c \<in> set (calls s (snd (ResetSecret usvc token secret s))) \<longrightarrow>
        h_Hash (us_hasher usvc) secret = Inr (Secret (c_Credentials c))"
    using ResetSecret_saves by blast
  have u: "\<forall>c. ClientsUpdateSecret c
             \<in> set (calls s (snd (users_UpdateClientSecret usvc token oldSecret secret s))) \<longrightarrow>
        h_Hash (us_hasher usvc) secret = Inr (Secret (c_Credentials c))"
    using users_UpdateClientSecret_saves by blast
  have n: "(\<forall>x. h_Hash (us_hasher usvc) x \<noteq> Inr x) \<longrightarrow>
        (\<forall>c. UsersSave c \<in> set (calls s (snd (RegisterClient usvc token cli s))) \<longrightarrow>
           Secret (c_Credentials c) \<noteq> Secret (c_Credentials cli))
      \<and> (\<forall>c. ClientsUpdateSecret c \<in> set (calls s (snd (ResetSecret usvc token secret s))) \<longrightarrow>
           Secret (c_Credentials c) \<noteq> secret)
      \<and> (\<forall>c. ClientsUpdateSecret c
             \<in> set (calls s (snd (users_UpdateClientSecret usvc token oldSecret secret s))) \<longrightarrow>
           Secret (c_Credentials c) \<noteq> secret)"
    using r t u by metis
  have k: "\<forall>cs. ThingsSave cs \<in> set (calls s (snd (CreateThings tsvc token clis s))) \<longrightarrow>
        list_all2 kept clis cs"
    using CreateThings_saves by blast
  have x: "\<forall>c. ClientsUpdateSecret c
             \<in> set (calls s (snd (things_UpdateClientSecret tsvc token thingID key s))) \<longrightarrow>
        Secret (c_Credentials c) = key"
    using things_UpdateClientSecret_saves by blast
  from r t u n k x show ?thesis by blast
qed

lemma run_RegisterClient:
  "calls s0 (snd (RegisterClient demo_users_service ''tok'' new_user s0))
     = [AuthIdentify ''tok'', IDProviderID, HasherHash ''password1'', UsersSave saved_user]"
  by (simp add: RegisterClient_def users_Identify_def idProvider_ID_def hasher_Hash_def
      time_Now_def calls_def demo_defs new_user_def saved_user_def Client_zero_def Let_def)

lemma run_ResetSecret:
  "calls s0 (snd (ResetSecret demo_users_service ''tok'' ''new-secret'' s0))
     = [AuthIdentify ''tok'', ClientsRetrieveByID ''u1'', HasherHash ''new-secret'',
        ClientsUpdateSecret reset_user]"
  by (simp add: ResetSecret_def users_Identify_def hasher_Hash_def time_Now_def calls_def
      demo_defs reset_user_def Client_zero_def Let_def)

lemma run_users_UpdateClientSecret:
  "calls s0 (snd (users_UpdateClientSecret demo_users_service ''tok'' ''old-secret''
                    ''new-secret'' s0))
     = [AuthIdentify ''tok'', ClientsRetrieveByID ''u1'',
        ClientsRetrieveByIdentity ''u1@example.com'',
        HasherCompare ''old-secret'' ''hash:old-secret'',
        AuthIssue \<lparr>ir_Id = ''u1'', ir_Email = ''u1@example.com'', ir_Type = 0\<rparr>,
        HasherHash ''new-secret'', ClientsUpdateSecret updated_user]"
  by (simp add: users_UpdateClientSecret_def IssueToken_def parseToken_def users_Identify_def
      hasher_Hash_def time_Now_def calls_def demo_defs updated_user_def Client_zero_def Let_def)

lemma run_CreateThings:
  "calls s0 (snd (CreateThings demo_things_service ''tok'' [demo_thing] s0))
     = [AuthIdentify ''tok'', ThingsSave [saved_thing]]"
  by (simp add: CreateThings_def CreateThings_loop.simps(2) time_Now_def calls_def demo_defs
      demo_thing_def saved_thing_def Client_zero_def Let_def)

lemma run_things_UpdateClientSecret:
  "calls s0 (snd (things_UpdateClientSecret demo_things_service ''tok'' ''t1'' ''raw-key'' s0))
     = [AuthIdentify ''tok'', AuthAuthorize (thing_req ''u1'' editPermission ''u1''),
        ClientsUpdateSecret rekeyed_thing]"
  by (simp add: things_UpdateClientSecret_def ts_identify_def ts_authorize_eq denial_def
      thing_req_def time_Now_def calls_def demo_defs rekeyed_thing_def Client_zero_def Let_def)

theorem C3_users_hash_things_keep_witness:
  "UsersSave saved_user
     \<in> set (calls s0 (snd (RegisterClient demo_users_service ''tok'' new_user s0)))
   \<and> h_Hash (us_hasher demo_users_service) (Secret (c_Credentials new_user))
       = Inr (Secret (c_Credentials saved_user))
   \<and> (\<forall>x. h_Hash (us_hasher demo_users_service) x \<noteq> Inr x)
   \<and> Secret (c_Credentials saved_user) \<noteq> Secret (c_Credentials new_user)
   \<and> Secret (c_Credentials reset_user) \<noteq> ''new-secret''
   \<and> Secret (c_Credentials updated_user) \<noteq> ''new-secret''
   \<and> ClientsUpdateSecret reset_user
       \<in> set (calls s0 (snd (ResetSecret demo_users_service ''tok'' ''new-secret'' s0)))
   \<and> h_Hash (us_hasher demo_users_service) ''new-secret''
       = Inr (Secret (c_Credentials reset_user))
   \<and> ClientsUpdateSecret updated_user
       \<in> set (calls s0 (snd (users_UpdateClientSecret demo_users_service ''tok'' ''old-secret''
                               ''new-secret'' s0)))
   \<and> h_Hash (us_hasher demo_users_service) ''new-secret''
       = Inr (Secret (c_Credentials updated_user))
   \<and> ThingsSave [saved_thing]
       \<in> set (calls s0 (snd (CreateThings demo_things_service ''tok'' [demo_thing] s0)))
   \<and> list_all2 kept [demo_thing] [saved_thing]
   \<and> ClientsUpdateSecret rekeyed_thing
       \<in> set (calls s0 (snd (things_UpdateClientSecret demo_things_service ''tok'' ''t1''
                               ''raw-key'' s0)))
   \<and> Secret (c_Credentials rekeyed_thing) = ''raw-key''"
proof -
  have nh: "\<forall>x. h_Hash (us_hasher demo_users_service) x \<noteq> Inr x"
  proof
    fix x :: string
    have "length (''hash:'' @ x) \<noteq> length x" by simp
    then have "''hash:'' @ x \<noteq> x" by metis
    then show "h_Hash (us_hasher demo_users_service) x \<noteq> Inr x"
      by (simp add: demo_defs)
  qed
  have m1: "UsersSave saved_user
     \<in> set (calls s0 (snd (RegisterClient demo_users_service ''tok'' new_user s0)))"
    by (simp add: run_RegisterClient)
  have m2: "ClientsUpdateSecret reset_user
       \<in> set (calls s0 (snd (ResetSecret demo_users_service ''tok'' ''new-secret'' s0)))"
    by (simp add: run_ResetSecret)
  have m3: "ClientsUpdateSecret updated_user
       \<in> set (calls s0 (snd (users_UpdateClientSecret demo_users_service ''tok'' ''old-secret''
                               ''new-secret'' s0)))"
    by (simp add: run_users_UpdateClientSecret)
  have m4: "ThingsSave [saved_thing]
       \<in> set (calls s0 (snd (CreateThings demo_things_service ''tok'' [demo_thing] s0)))"
    by (simp add: run_CreateThings)
  have m5: "ClientsUpdateSecret rekeyed_thing
       \<in> set (calls s0 (snd (things_UpdateClientSecret demo_things_service ''tok'' ''t1''
                               ''raw-key'' s0)))"
    by (simp add: run_things_UpdateClientSecret)
  from C3_users_hash_things_keep [where s = s0 and usvc = demo_users_service
      and token = "''tok''" and cli = new_user and secret = "''new-secret''"
      and oldSecret = "''old-secret''" and tsvc = demo_things_service and clis = "[demo_thing]"
      and thingID = "''t1''" and key = "''raw-key''"] m1 m2 m3 m4 m5 nh
  show ?thesis by blast
qed

text \<open>
  Claim C3 as stated fails on the things service: a thing created with the secret
  \<open>raw-key\<close> is handed to \<open>Save\<close> with that very secret, and a secret update hands the
  new key to \<open>UpdateSecret\<close> as it was supplied; no hash is taken on either path.
\<close>

theorem C3_things_raw_secret_counterexample:
  "calls s0 (snd (CreateThings demo_things_service ''tok'' [demo_thing] s0))
     = [AuthIdentify ''tok'', ThingsSave [saved_thing]]
   \<and> Secret (c_Credentials demo_thing) = ''raw-key''
   \<and> Secret (c_Credentials saved_thing) = ''raw-key''
   \<and> calls s0 (snd (things_UpdateClientSecret demo_things_service ''tok'' ''t1'' ''raw-key'' s0))
     = [AuthIdentify ''tok'', AuthAuthorize (thing_req ''u1'' editPermission ''u1''),
        ClientsUpdateSecret rekeyed_thing]
   \<and> Secret (c_Credentials rekeyed_thing) = ''raw-key''"
  using run_CreateThings run_things_UpdateClientSecret
  by (simp add: demo_thing_def saved_thing_def rekeyed_thing_def)


subsection \<open>Tree assembly\<close>

text \<open>The visiting orders of a map of three keys, and of one key.\<close>

lemma perm3:
  assumes "distinct ks" "set ks = {a, b, c}" "a \<noteq> b" "a \<noteq> c" "b \<noteq> c"
  shows "ks \<in> {[a,b,c],[a,c,b],[b,a,c],[b,c,a],[c,a,b],[c,b,a]}"
proof -
  have len: "length ks = 3" using assms distinct_card[of ks] by simp
  obtain x ks1 where k1: "ks = x # ks1" using len by (cases ks) auto
  obtain y ks2 where k2: "ks1 = y # ks2" using len k1 by (cases ks1) auto
  obtain z ks3 where k3: "ks2 = z # ks3" using len k1 k2 by (cases ks2) auto
  have k4: "ks3 = []" using len k1 k2 k3 by simp
  have ks: "ks = [x, y, z]" by (simp add: k1 k2 k3 k4)
  have sub: "set ks \<subseteq> {a, b, c}" using assms(2) by simp
  have mem: "x \<in> {a, b, c}" "y \<in> {a, b, c}" "z \<in> {a, b, c}"
    using sub unfolding ks by simp_all
  have d: "x \<noteq> y" "x \<noteq> z" "y \<noteq> z" using assms(1) unfolding ks by simp_all
  show ?thesis using mem d unfolding ks by auto
qed

lemma perm1:
  assumes "distinct ks" "set ks = {a}"
  shows "ks = [a]"
proof -
  have len: "length ks = 1" using assms distinct_card[of ks] by simp
  then obtain x where "ks = [x]" by (cases ks) auto
  with assms show ?thesis by auto
qed

lemma chain_index:
  assumes "g_ID g1 = ''1''" "g_ID g2 = ''2''" "g_ID g3 = ''3''"
  shows "index_groups [g1, g2, g3] = (chain_gm, [(''1'', []), (''2'', []), (''3'', [])])"
  using assms by (simp add: index_groups_def index_step_def upt_rec chain_gm_def)

lemma chain_orders:
  assumes "range_order chain_gm ks"
  shows "ks \<in> {[''1'',''2'',''3''],[''1'',''3'',''2''],[''2'',''1'',''3''],[''2'',''3'',''1''],
               [''3'',''1'',''2''],[''3'',''2'',''1'']}"
  using assms perm3 [of ks "''1''" "''2''" "''3''"]
  by (simp add: range_order_def chain_gm_def)

lemma chain_attach:
  assumes "g_Parent g1 = []" "g_Parent g2 = ''1''" "g_Parent g3 = ''2''"
    and "range_order chain_gm ks"
  shows "fold (attach_step [g1, g2, g3] chain_gm) ks [(''1'', []), (''2'', []), (''3'', [])]
     = chain_pm"
  using chain_orders [OF assms(4)] assms(1-3)
  by (auto simp: attach_step_def chain_gm_def chain_pm_def)

lemma chain_children:
  assumes "g_ID g1 = ''1''" "g_ID g2 = ''2''" "g_ID g3 = ''3''"
    and "range_order chain_gm ks"
  shows "fold (children_step chain_pm chain_gm) ks [g1, g2, g3]
     = [g1\<lparr>g_Children := [Suc 0]\<rparr>, g2\<lparr>g_Children := [Suc (Suc 0)]\<rparr>, g3\<lparr>g_Children := []\<rparr>]"
  using chain_orders [OF assms(4)] assms(1-3)
  by (auto simp: children_step_def chain_gm_def chain_pm_def)

lemma chain_roots:
  assumes "g_Parent g1 = []" "g_Parent g2 = ''1''" "g_Parent g3 = ''2''"
    and "range_order chain_gm ks"
  shows "fold (roots_step [g1\<lparr>g_Children := [Suc 0]\<rparr>, g2\<lparr>g_Children := [Suc (Suc 0)]\<rparr>,
                           g3\<lparr>g_Children := []\<rparr>] chain_pm chain_gm) ks []
     = [g1\<lparr>g_Children := [Suc 0]\<rparr>]"
  using chain_orders [OF assms(4)] assms(1-3)
  by (auto simp: roots_step_def chain_gm_def chain_pm_def)


lemma orphan_index:
  assumes "g_ID g = ''2''"
  shows "index_groups [g] = ([(''2'', 0)], [(''2'', [])])"
  using assms by (simp add: index_groups_def index_step_def)

lemma orphan_orders:
  assumes "range_order [(''2'', 0)] ks"
  shows "ks = [''2'']"
  using assms perm1 [of ks "''2''"] by (simp add: range_order_def)

text \<open>
  Claim C6.  A page of three groups with ids 1, 2, 3 and parents none, 1, 2 yields, in
  whatever order the three loops visit the map, exactly one root: group 1, whose only
  child is group 2, whose only child is group 3, which has no child.  A page of the single
  group 2 with parent 1, which is not in the page, yields group 2 as the only root, with no
  child.
\<close>

theorem C6_tree_assembly:
  "(p_Groups page = [g1, g2, g3]
    \<and> g_ID g1 = ''1'' \<and> g_Parent g1 = []
    \<and> g_ID g2 = ''2'' \<and> g_Parent g2 = ''1''
    \<and> g_ID g3 = ''3'' \<and> g_Parent g3 = ''2''
    \<and> range_order (fst (index_groups (p_Groups page))) attach_order
    \<and> range_order (fst (index_groups (p_Groups page))) children_order
    \<and> range_order (fst (index_groups (p_Groups page))) roots_order \<longrightarrow>
      (case buildGroupsResponseTree page attach_order children_order roots_order of
         (res, store) \<Rightarrow> map (tree_of 3 store) (r_Groups res))
        = [Some (Node ''1'' [Node ''2'' [Node ''3'' []]])])
   \<and> (p_Groups page' = [g]
    \<and> g_ID g = ''2'' \<and> g_Parent g = ''1''
    \<and> range_order (fst (index_groups (p_Groups page'))) attach_order'
    \<and> range_order (fst (index_groups (p_Groups page'))) children_order'
    \<and> range_order (fst (index_groups (p_Groups page'))) roots_order' \<longrightarrow>
      (case buildGroupsResponseTree page' attach_order' children_order' roots_order' of
         (res, store) \<Rightarrow> map (tree_of 3 store) (r_Groups res))
        = [Some (Node ''2'' [])])"
proof (intro conjI impI)
  assume h: "p_Groups page = [g1, g2, g3]
    \<and> g_ID g1 = ''1'' \<and> g_Parent g1 = []
    \<and> g_ID g2 = ''2'' \<and> g_Parent g2 = ''1''
    \<and> g_ID g3 = ''3'' \<and> g_Parent g3 = ''2''
    \<and> range_order (fst (index_groups (p_Groups page))) attach_order
    \<and> range_order (fst (index_groups (p_Groups page))) children_order
    \<and> range_order (fst (index_groups (p_Groups page))) roots_order"
  then have ids: "g_ID g1 = ''1''" "g_ID g2 = ''2''" "g_ID g3 = ''3''"
    and ps: "g_Parent g1 = []" "g_Parent g2 = ''1''" "g_Parent g3 = ''2''"
    and pg: "p_Groups page = [g1, g2, g3]" by simp_all
  note idx = chain_index [OF ids]
  from h have o: "range_order chain_gm attach_order" "range_order chain_gm children_order"
    "range_order chain_gm roots_order" by (simp_all add: pg idx)
  show "(case buildGroupsResponseTree page attach_order children_order roots_order of
         (res, store) \<Rightarrow> map (tree_of 3 store) (r_Groups res))
        = [Some (Node ''1'' [Node ''2'' [Node ''3'' []]])]"
    by (simp add: buildGroupsResponseTree_def pg idx chain_attach [OF ps o(1)]
        chain_children [OF ids o(2)] chain_roots [OF ps o(3)] numeral_3_eq_3 ids Let_def)
next
  assume h: "p_Groups page' = [g]
    \<and> g_ID g = ''2'' \<and> g_Parent g = ''1''
    \<and> range_order (fst (index_groups (p_Groups page'))) attach_order'
    \<and> range_order (fst (index_groups (p_Groups page'))) children_order'
    \<and> range_order (fst (index_groups (p_Groups page'))) roots_order'"
  then have i: "g_ID g = ''2''" and p: "g_Parent g = ''1''" and pg: "p_Groups page' = [g]"
    by simp_all
  note idx = orphan_index [OF i]
  from h have o: "attach_order' = [''2'']" "children_order' = [''2'']" "roots_order' = [''2'']"
    by (simp_all add: pg idx orphan_orders)
  show "(case buildGroupsResponseTree page' attach_order' children_order' roots_order' of
         (res, store) \<Rightarrow> map (tree_of 3 store) (r_Groups res))
        = [Some (Node ''2'' [])]"
    by (simp add: buildGroupsResponseTree_def pg idx o attach_step_def children_step_def
        roots_step_def i p numeral_3_eq_3 Let_def)
qed

theorem C6_tree_assembly_witness:
  "range_order (fst (index_groups (p_Groups chain_page))) [''3'', ''1'', ''2'']
   \<and> range_order (fst (index_groups (p_Groups chain_page))) [''2'', ''3'', ''1'']
   \<and> range_order (fst (index_groups (p_Groups chain_page))) [''1'', ''2'', ''3'']
   \<and> (case buildGroupsResponseTree chain_page [''3'', ''1'', ''2''] [''2'', ''3'', ''1'']
               [''1'', ''2'', ''3''] of
         (res, store) \<Rightarrow> map (tree_of 3 store) (r_Groups res))
        = [Some (Node ''1'' [Node ''2'' [Node ''3'' []]])]
   \<and> range_order (fst (index_groups (p_Groups orphan_page))) [''2'']
   \<and> (case buildGroupsResponseTree orphan_page [''2''] [''2''] [''2''] of
         (res, store) \<Rightarrow> map (tree_of 3 store) (r_Groups res))
        = [Some (Node ''2'' [])]"
proof -
  have c: "p_Groups chain_page = [grp_of ''1'' [], grp_of ''2'' ''1'', grp_of ''3'' ''2'']"
    "p_Groups orphan_page = [grp_of ''2'' ''1'']"
    by (simp_all add: chain_page_def orphan_page_def page_of_def)
  have g: "g_ID (grp_of ''1'' []) = ''1''" "g_Parent (grp_of ''1'' []) = []"
    "g_ID (grp_of ''2'' ''1'') = ''2''" "g_Parent (grp_of ''2'' ''1'') = ''1''"
    "g_ID (grp_of ''3'' ''2'') = ''3''" "g_Parent (grp_of ''3'' ''2'') = ''2''"
    by (simp_all add: grp_of_def Group_zero_def)
  have r: "range_order (fst (index_groups (p_Groups chain_page))) [''3'', ''1'', ''2'']"
    "range_order (fst (index_groups (p_Groups chain_page))) [''2'', ''3'', ''1'']"
    "range_order (fst (index_groups (p_Groups chain_page))) [''1'', ''2'', ''3'']"
    "range_order (fst (index_groups (p_Groups orphan_page))) [''2'']"
    by (auto simp: c chain_index g orphan_index range_order_def chain_gm_def)
  from C6_tree_assembly [where page = chain_page and ?g1.0 = "grp_of ''1'' []"
      and ?g2.0 = "grp_of ''2'' ''1''" and ?g3.0 = "grp_of ''3'' ''2''"
      and attach_order = "[''3'', ''1'', ''2'']" and children_order = "[''2'', ''3'', ''1'']"
      and roots_order = "[''1'', ''2'', ''3'']" and page' = orphan_page and g = "grp_of ''2'' ''1''"
      and attach_order' = "[''2'']" and children_order' = "[''2'']" and roots_order' = "[''2'']"] c g r
  show ?thesis by blast
qed


end
